theory Spec2Isabelle
  imports
    Main
    "HOL-Library.Word"
    "HOL-Library.Signed_Division"
    "HOL-Library.Char_ord"
    "HOL-Library.List_Lexorder"
begin

unbundle bit_operations_syntax

section \<open>toysqleval: a shallow embedding of the lexer, the parser and the evaluator\<close>

text \<open>
  Go's built-in types are modelled directly: \<open>int64\<close> and \<open>int\<close> are 64-bit words
  (arithmetic wraps, comparisons are signed), a \<open>float64\<close> is its IEEE 754 bit pattern,
  a \<open>string\<close> is its byte sequence, a \<open>rune\<close> is a code point. A panic is a value
  of type \<open>panicval\<close> on the left of a sum. The functions of Go's standard library
  that the program calls (strconv, fmt, time, unicode, strings) and the floating-point
  arithmetic of the machine are parameters, collected in the record \<open>golib\<close>.
\<close>

subsection \<open>token: positions and kinds (token/pos.go, token/kind.go, token/token.go)\<close>

record Pos =
  Line :: int
  Column :: int

datatype Kind =
    token_Invalid | token_And | token_Boolean | token_Comma | token_Concat | token_Create
  | token_Delete | token_Div | token_Dot | token_Equal | token_False | token_From
  | token_GreaterThan | token_GreaterThanOrEqualTo | token_Ident | token_Insert
  | token_Integer | token_Into | token_LeftParen | token_LessThan
  | token_LessThanOrEqualTo | token_Minus | token_Mul | token_Not | token_NotEqual
  | token_Null | token_Number | token_NumberLiteral | token_Or | token_Plus
  | token_RightParen | token_Select | token_Semicolon | token_Set | token_StringLiteral
  | token_Table | token_Timestamp | token_True | token_Update | token_Values
  | token_Varchar | token_Where

fun Precedence :: "Kind \<Rightarrow> int" where
  "Precedence token_Or = 1"
| "Precedence token_And = 2"
| "Precedence token_Equal = 3"
| "Precedence token_NotEqual = 3"
| "Precedence token_LessThan = 3"
| "Precedence token_LessThanOrEqualTo = 3"
| "Precedence token_GreaterThan = 3"
| "Precedence token_GreaterThanOrEqualTo = 3"
| "Precedence token_Plus = 4"
| "Precedence token_Minus = 4"
| "Precedence token_Concat = 4"
| "Precedence token_Mul = 5"
| "Precedence token_Div = 5"
| "Precedence _ = 0"

record Token =
  Kind :: Kind
  TokPos :: Pos
  Lit :: string

definition zeroPos :: Pos where
  "zeroPos = \<lparr>Line = 0, Column = 0\<rparr>"

subsection \<open>Built-in numbers\<close>

type_synonym int64 = "64 word"
type_synonym float64 = "64 word"

definition MaxInt64 :: int64 where
  "MaxInt64 = 0x7FFFFFFFFFFFFFFF"

definition MinInt64 :: int64 where
  "MinInt64 = 0x8000000000000000"

text \<open>Go's \<open>x / y\<close> on int64 truncates towards zero and wraps at \<open>MinInt64 / -1\<close>.\<close>

definition int64_quo :: "int64 \<Rightarrow> int64 \<Rightarrow> int64" where
  "int64_quo x y = word_of_int (sint x sdiv sint y)"

text \<open>
  IEEE 754 binary64, read off the bit pattern: bit 63 is the sign, bits 52..62 the biased
  exponent, bits 0..51 the fraction. The comparisons are those of Go's \<open>==\<close> and \<open><\<close>
  on float64: false when an operand is a NaN, and the two zeros are equal.
\<close>

definition f_exponent :: "float64 \<Rightarrow> nat" where
  "f_exponent x = unat (drop_bit 52 x AND 0x7FF)"

definition f_fraction :: "float64 \<Rightarrow> nat" where
  "f_fraction x = unat (x AND 0xFFFFFFFFFFFFF)"

definition f_isNaN :: "float64 \<Rightarrow> bool" where
  "f_isNaN x = (f_exponent x = 2047 \<and> f_fraction x \<noteq> 0)"

text \<open>The magnitude bits of a float order like the magnitudes; the sign turns them around.\<close>

definition f_key :: "float64 \<Rightarrow> int" where
  "f_key x = (if bit x 63 then - uint (x AND 0x7FFFFFFFFFFFFFFF) else uint x)"

definition f_eq :: "float64 \<Rightarrow> float64 \<Rightarrow> bool" where
  "f_eq x y = (\<not> f_isNaN x \<and> \<not> f_isNaN y \<and> f_key x = f_key y)"

definition f_lt :: "float64 \<Rightarrow> float64 \<Rightarrow> bool" where
  "f_lt x y = (\<not> f_isNaN x \<and> \<not> f_isNaN y \<and> f_key x < f_key y)"

definition f_le :: "float64 \<Rightarrow> float64 \<Rightarrow> bool" where
  "f_le x y = (\<not> f_isNaN x \<and> \<not> f_isNaN y \<and> f_key x \<le> f_key y)"

definition f_neg :: "float64 \<Rightarrow> float64" where
  "f_neg x = x XOR 0x8000000000000000"

definition f_zero :: float64 where
  "f_zero = 0"

fun bitlen :: "nat \<Rightarrow> nat" where
  "bitlen n = (if n = 0 then 0 else Suc (bitlen (n div 2)))"

text \<open>
  \<open>float64(n)\<close> for a magnitude \<open>0 < m \<le> 2 ^ 63\<close>: exact when \<open>m\<close> has at most 53
  bits, else rounded to the nearest float, ties to the even fraction. A carry out of the
  fraction moves into the exponent field by the addition.
\<close>

definition f_of_magnitude :: "nat \<Rightarrow> nat" where
  "f_of_magnitude m =
     (let p = bitlen m - 1 in
      if p \<le> 52 then (p + 1023) * 2 ^ 52 + (m * 2 ^ (52 - p) - 2 ^ 52)
      else
        let sh = p - 52; q = m div 2 ^ sh; r = m mod 2 ^ sh; half = 2 ^ (sh - 1);
            q' = (if half < r \<or> (r = half \<and> odd q) then q + 1 else q)
        in (p + 1023) * 2 ^ 52 + (q' - 2 ^ 52))"

definition f_of_int64 :: "int64 \<Rightarrow> float64" where
  "f_of_int64 n =
     (if n = 0 then 0
      else if sint n < 0 then word_of_nat (f_of_magnitude (nat (- sint n))) OR 0x8000000000000000
      else word_of_nat (f_of_magnitude (nat (sint n))))"

subsection \<open>ast: nodes (ast/ast.go)\<close>

datatype Ident = Ident (NamePos: Pos) (IdentName: string)

text \<open>
  \<open>AggFuncNode\<close> is the node the aggregate rewriter puts in place of a call of an
  aggregate function: in the source the accumulator object itself (it implements
  \<open>ast.Expr\<close>); here its position and its index in the rewriter's list \<open>funcs\<close>.
\<close>

datatype Expr =
    IdentExpr Ident
  | BinaryExpr Expr Kind Expr
  | UnaryExpr Pos Kind Expr
  | SelectStarExpr Pos
  | IntegerLiteral Pos int64
  | NumberLiteral Pos float64
  | StringLiteral Pos string
  | BooleanLiteral Pos bool
  | Null Pos
  | FunctionCall Ident "Expr list"
  | AggFuncNode Pos nat

datatype ColumnDefinition = ColumnDefinition (DefName: Ident) (DefType: Kind) (DefNullable: bool)

datatype Node =
    CreateTableStmt Pos Ident "ColumnDefinition list"
  | SelectStmt Pos "Expr list" Expr "Expr option"
  | InsertStmt Pos Ident "Ident list" "Expr list"
  | UpdateStmt Pos Ident "Ident list" "Expr list" "Expr option"
  | DeleteStmt Pos Ident "Expr option"
  | ExprNode Expr

fun ExprPos :: "Expr \<Rightarrow> Pos" where
  "ExprPos (IdentExpr i) = NamePos i"
| "ExprPos (BinaryExpr l _ _) = ExprPos l"
| "ExprPos (UnaryExpr p _ _) = p"
| "ExprPos (SelectStarExpr p) = p"
| "ExprPos (IntegerLiteral p _) = p"
| "ExprPos (NumberLiteral p _) = p"
| "ExprPos (StringLiteral p _) = p"
| "ExprPos (BooleanLiteral p _) = p"
| "ExprPos (Null p) = p"
| "ExprPos (FunctionCall i _) = NamePos i"
| "ExprPos (AggFuncNode p _) = p"

fun NodePos :: "Node \<Rightarrow> Pos" where
  "NodePos (CreateTableStmt p _ _) = p"
| "NodePos (SelectStmt p _ _ _) = p"
| "NodePos (InsertStmt p _ _ _) = p"
| "NodePos (UpdateStmt p _ _ _ _) = p"
| "NodePos (DeleteStmt p _ _) = p"
| "NodePos (ExprNode e) = ExprPos e"

subsection \<open>Panics and error values\<close>

datatype DataType =
    InvalidDataType | eval_Boolean | eval_Integer | eval_Number | eval_String | eval_Timestamp

text \<open>A \<open>time.Time\<close>: its instant (nanoseconds since the epoch) and its location.\<close>

datatype Time = Time (instant: int) (location: string)

datatype Value =
    BooleanValue bool
  | IntegerValue int64
  | NumberValue float64
  | StringValue string
  | TimestampValue Time

text \<open>
  A message is kept as the format string and the arguments given to \<open>fmt.Sprintf\<close>,
  \<open>fmt.Errorf\<close> or \<open>errorf\<close>; it is not rendered.
\<close>

datatype Msg = Sprintf string "Arg list"
and Arg =
    ArgString string
  | ArgInt int
  | ArgKind Kind
  | ArgKinds "Kind list"
  | ArgRune nat
  | ArgValue "Value option"
  | ArgDataType DataType
  | ArgExpr Expr
  | ArgNode Node
  | ArgMsg Msg

text \<open>
  The value a panic carries. \<open>PosError\<close> is an \<open>*eval.Error\<close> or
  \<open>*parser.Error\<close> or \<open>*lexer.Error\<close> (message and position), \<open>PlainError\<close> an error made by
  \<open>fmt.Errorf\<close>, \<open>NumError\<close> the error of \<open>strconv\<close> (function and input),
  \<open>RuntimeError\<close> a panic of the Go runtime; all four implement \<open>error\<close>.
  \<open>PanicString\<close> is a panic with a plain string, which does not.
\<close>

datatype panicval =
    PosError Pos Msg
  | PlainError Msg
  | NumError string string
  | RuntimeError string
  | PanicString Msg

fun isError :: "panicval \<Rightarrow> bool" where
  "isError (PanicString _) = False"
| "isError _ = True"

definition nilDereference :: panicval where
  "nilDereference = RuntimeError ''invalid memory address or nil pointer dereference''"

definition indexOutOfRange :: panicval where
  "indexOutOfRange = RuntimeError ''index out of range''"

text \<open>\<open>errorf(node, format, args...)\<close> of eval/error.go, with the node's position.\<close>

definition errorf :: "Pos \<Rightarrow> string \<Rightarrow> Arg list \<Rightarrow> panicval" where
  "errorf p format args = PosError p (Sprintf format args)"

subsection \<open>The standard library and the floating-point unit, as parameters\<close>

type_synonym rune = nat

text \<open>
  \<open>ParseInt s\<close> is \<open>strconv.ParseInt(s, 10, 64)\<close> and \<open>ParseFloat s\<close> is
  \<open>strconv.ParseFloat(s, 64)\<close>: the number returned and whether the error is nil.
  \<open>FormatInt\<close> is \<open>fmt.Sprintf("%d", n)\<close>, \<open>FormatFloat\<close> is \<open>fmt.Sprintf("%v", x)\<close>.
  \<open>TimeParse layout s\<close> is \<open>time.Parse\<close> (\<open>None\<close> for an error), \<open>TimeFormat\<close> is
  \<open>Format(time.RFC3339)\<close>. \<open>f_add\<close> to \<open>f_div\<close> are float64 arithmetic and
  \<open>f_to_int64\<close> the conversion \<open>int64(x)\<close>. \<open>unicode_White_Space\<close>, \<open>unicode_Digit\<close>
  and \<open>unicode_Letter\<close> are the range tables of package unicode, consulted for runes
  beyond Latin-1; \<open>strings_ToLower\<close> is \<open>strings.ToLower\<close> on a string that is not
  all ASCII.
\<close>

record golib =
  ParseInt :: "string \<Rightarrow> int64 \<times> bool"
  ParseFloat :: "string \<Rightarrow> float64 \<times> bool"
  FormatInt :: "int64 \<Rightarrow> string"
  FormatFloat :: "float64 \<Rightarrow> string"
  TimeParse :: "string \<Rightarrow> string \<Rightarrow> Time option"
  TimeFormat :: "Time \<Rightarrow> string"
  f_add :: "float64 \<Rightarrow> float64 \<Rightarrow> float64"
  f_sub :: "float64 \<Rightarrow> float64 \<Rightarrow> float64"
  f_mul :: "float64 \<Rightarrow> float64 \<Rightarrow> float64"
  f_div :: "float64 \<Rightarrow> float64 \<Rightarrow> float64"
  f_to_int64 :: "float64 \<Rightarrow> int64"
  unicode_White_Space :: "rune \<Rightarrow> bool"
  unicode_Digit :: "rune \<Rightarrow> bool"
  unicode_Letter :: "rune \<Rightarrow> bool"
  strings_ToLower :: "string \<Rightarrow> string"

subsection \<open>eval: values and their casts (eval/value.go)\<close>

definition timeLayouts :: "string list" where
  "timeLayouts =
     [''2006-01-02 15:04:05 MST'',
      ''2006-01-02T15:04:05Z07:00'',
      ''2006-01-02T15:04:05.999999999Z07:00'',
      ''Mon, 02 Jan 2006 15:04:05 MST'',
      ''Mon, 02 Jan 2006 15:04:05 -0700'',
      ''Mon Jan _2 15:04:05 MST 2006'',
      ''Mon Jan 02 15:04:05 -0700 2006'']"

fun toBoolean :: "Value \<Rightarrow> panicval + bool" where
  "toBoolean (BooleanValue b) = Inr b"
| "toBoolean (IntegerValue _) = Inl (PanicString (Sprintf ''cannot convert Integer to Boolean'' []))"
| "toBoolean (NumberValue _) = Inl (PanicString (Sprintf ''cannot convert Number to Boolean'' []))"
| "toBoolean (StringValue _) = Inl (PanicString (Sprintf ''cannot convert String to Boolean'' []))"
| "toBoolean (TimestampValue _) = Inl (PanicString (Sprintf ''cannot convert Timestamp to Boolean'' []))"

fun toInteger :: "golib \<Rightarrow> Value \<Rightarrow> panicval + int64" where
  "toInteger L (BooleanValue _) = Inl (PanicString (Sprintf ''cannot convert Boolean to Integer'' []))"
| "toInteger L (IntegerValue n) = Inr n"
| "toInteger L (NumberValue x) = Inr (f_to_int64 L x)"
| "toInteger L (StringValue s) =
     (case ParseInt L s of (n, ok) \<Rightarrow> if ok then Inr n else Inl (NumError ''ParseInt'' s))"
| "toInteger L (TimestampValue _) = Inl (PanicString (Sprintf ''cannot convert Timestamp to Integer'' []))"

fun toNumber :: "golib \<Rightarrow> Value \<Rightarrow> panicval + float64" where
  "toNumber L (BooleanValue _) = Inl (PanicString (Sprintf ''cannot convert Boolean to Number'' []))"
| "toNumber L (IntegerValue n) = Inr (f_of_int64 n)"
| "toNumber L (NumberValue x) = Inr x"
| "toNumber L (StringValue s) =
     (case ParseFloat L s of (x, ok) \<Rightarrow> if ok then Inr x else Inl (NumError ''ParseFloat'' s))"
| "toNumber L (TimestampValue _) = Inl (PanicString (Sprintf ''cannot convert Timestamp to Number'' []))"

text \<open>The loop of \<open>StringValue.toTimestamp\<close> over the layouts: the first that parses wins.\<close>

fun parseTimestamp :: "golib \<Rightarrow> string list \<Rightarrow> string \<Rightarrow> panicval + Time" where
  "parseTimestamp L [] s = Inl (PanicString (Sprintf ''invalid timestamp: %s'' [ArgString s]))"
| "parseTimestamp L (layout # layouts) s =
     (case TimeParse L layout s of Some t \<Rightarrow> Inr t | None \<Rightarrow> parseTimestamp L layouts s)"

fun toString :: "golib \<Rightarrow> Value \<Rightarrow> panicval + string" where
  "toString L (BooleanValue _) = Inl (PanicString (Sprintf ''cannot convert Boolean to String'' []))"
| "toString L (IntegerValue n) = Inr (FormatInt L n)"
| "toString L (NumberValue x) = Inr (FormatFloat L x)"
| "toString L (StringValue s) = Inr s"
| "toString L (TimestampValue t) = Inr (TimeFormat L t)"

fun toTimestamp :: "golib \<Rightarrow> Value \<Rightarrow> panicval + Time" where
  "toTimestamp L (BooleanValue _) = Inl (PanicString (Sprintf ''cannot convert Boolean to Timestamp'' []))"
| "toTimestamp L (IntegerValue _) = Inl (PanicString (Sprintf ''cannot convert Integer to Timestamp'' []))"
| "toTimestamp L (NumberValue _) = Inl (PanicString (Sprintf ''cannot convert Number to Timestamp'' []))"
| "toTimestamp L (StringValue s) = parseTimestamp L timeLayouts s"
| "toTimestamp L (TimestampValue t) = Inr t"

text \<open>
  A \<open>Value\<close> of the source is an interface value and null is its nil: \<open>None\<close> here.
  Calling a method on it panics in the runtime.
\<close>

fun nonNil :: "Value option \<Rightarrow> panicval + Value" where
  "nonNil None = Inl nilDereference"
| "nonNil (Some v) = Inr v"

definition valueToBoolean :: "Value option \<Rightarrow> panicval + bool" where
  "valueToBoolean v = (case nonNil v of Inl e \<Rightarrow> Inl e | Inr w \<Rightarrow> toBoolean w)"

definition mapInr :: "('a \<Rightarrow> 'b) \<Rightarrow> 'e + 'a \<Rightarrow> 'e + 'b" where
  "mapInr f r = (case r of Inl e \<Rightarrow> Inl e | Inr x \<Rightarrow> Inr (f x))"

fun coerce :: "golib \<Rightarrow> Value \<Rightarrow> DataType \<Rightarrow> panicval + Value" where
  "coerce L v eval_Boolean = mapInr BooleanValue (toBoolean v)"
| "coerce L v eval_Integer = mapInr IntegerValue (toInteger L v)"
| "coerce L v eval_Number = mapInr NumberValue (toNumber L v)"
| "coerce L v eval_String = mapInr StringValue (toString L v)"
| "coerce L v eval_Timestamp = mapInr TimestampValue (toTimestamp L v)"
| "coerce L v InvalidDataType =
     Inl (PlainError (Sprintf ''invalid data type: %s'' [ArgDataType InvalidDataType]))"

subsection \<open>eval: tables and namespaces (eval/db.go, eval/namespace.go)\<close>

record Column =
  Name :: string
  Type :: DataType
  Default :: "Value option"
  Nullable :: bool
  AutoInc :: bool
  NextVal :: int64

type_synonym Row = "Value option list"

record Table =
  TableName :: string
  Columns :: "Column list"
  Data :: "Row list"

text \<open>\<open>colIndex\<close>: the index of the first column of that name, \<open>-1\<close> when there is none.\<close>

fun colIndexFrom :: "int \<Rightarrow> Column list \<Rightarrow> string \<Rightarrow> int" where
  "colIndexFrom i [] name = -1"
| "colIndexFrom i (c # cs) name = (if Name c = name then i else colIndexFrom (i + 1) cs name)"

definition colIndex :: "Table \<Rightarrow> string \<Rightarrow> int" where
  "colIndex t name = colIndexFrom 0 (Columns t) name"

datatype namespace = emptyNamespace | currentRow Table Row

text \<open>Reading \<open>row[i]\<close> past the end of the slice is a runtime panic.\<close>

fun lookup :: "namespace \<Rightarrow> string \<Rightarrow> panicval + Value option" where
  "lookup emptyNamespace name =
     Inl (PlainError (Sprintf ''column %q does not exist'' [ArgString name]))"
| "lookup (currentRow table row) name =
     (let i = colIndex table name in
      if 0 \<le> i then (if nat i < length row then Inr (row ! nat i) else Inl indexOutOfRange)
      else Inl (PlainError (Sprintf ''column %q does not exist'' [ArgString name])))"

subsection \<open>eval: aggregate accumulators (eval/funcs.go)\<close>

record countAggFunc =
  count_expr :: Expr
  isStar :: bool
  count :: int64

record minMaxAggFunc =
  mm_expr :: Expr
  fval :: float64
  ival :: int64
  mm_isFloat :: bool
  isMin :: bool

record sumAggFunc =
  sum_expr :: Expr
  fsum :: float64
  isum :: int64
  sum_isFloat :: bool

datatype aggFunc = Count countAggFunc | MinMax minMaxAggFunc | Sum sumAggFunc

fun finalize :: "aggFunc \<Rightarrow> Value option" where
  "finalize (Count fn) = Some (IntegerValue (count fn))"
| "finalize (MinMax fn) =
     (if mm_isFloat fn then Some (NumberValue (fval fn)) else Some (IntegerValue (ival fn)))"
| "finalize (Sum fn) =
     (if sum_isFloat fn then Some (NumberValue (fsum fn)) else Some (IntegerValue (isum fn)))"

subsection \<open>eval: operators (eval/value.go, eval/eval.go)\<close>

definition invalidComparisonOperator :: "Pos \<Rightarrow> Kind \<Rightarrow> panicval" where
  "invalidComparisonOperator p op = errorf p ''invalid comparison operator: %s'' [ArgKind op]"

definition cmpInts :: "Pos \<Rightarrow> Kind \<Rightarrow> int64 \<Rightarrow> int64 \<Rightarrow> panicval + bool" where
  "cmpInts p op a b =
     (case op of
        token_Equal \<Rightarrow> Inr (a = b)
      | token_NotEqual \<Rightarrow> Inr (a \<noteq> b)
      | token_LessThan \<Rightarrow> Inr (sint a < sint b)
      | token_LessThanOrEqualTo \<Rightarrow> Inr (sint a \<le> sint b)
      | token_GreaterThan \<Rightarrow> Inr (sint b < sint a)
      | token_GreaterThanOrEqualTo \<Rightarrow> Inr (sint b \<le> sint a)
      | _ \<Rightarrow> Inl (invalidComparisonOperator p op))"

definition cmpFloats :: "Pos \<Rightarrow> Kind \<Rightarrow> float64 \<Rightarrow> float64 \<Rightarrow> panicval + bool" where
  "cmpFloats p op a b =
     (case op of
        token_Equal \<Rightarrow> Inr (f_eq a b)
      | token_NotEqual \<Rightarrow> Inr (\<not> f_eq a b)
      | token_LessThan \<Rightarrow> Inr (f_lt a b)
      | token_LessThanOrEqualTo \<Rightarrow> Inr (f_le a b)
      | token_GreaterThan \<Rightarrow> Inr (f_lt b a)
      | token_GreaterThanOrEqualTo \<Rightarrow> Inr (f_le b a)
      | _ \<Rightarrow> Inl (invalidComparisonOperator p op))"

definition cmpStrings :: "Pos \<Rightarrow> Kind \<Rightarrow> string \<Rightarrow> string \<Rightarrow> panicval + bool" where
  "cmpStrings p op a b =
     (case op of
        token_Equal \<Rightarrow> Inr (a = b)
      | token_NotEqual \<Rightarrow> Inr (a \<noteq> b)
      | token_LessThan \<Rightarrow> Inr (a < b)
      | token_LessThanOrEqualTo \<Rightarrow> Inr (a \<le> b)
      | token_GreaterThan \<Rightarrow> Inr (b < a)
      | token_GreaterThanOrEqualTo \<Rightarrow> Inr (b \<le> a)
      | _ \<Rightarrow> Inl (invalidComparisonOperator p op))"

text \<open>\<open>Equal\<close>, \<open>Before\<close> and \<open>After\<close> of \<open>time.Time\<close> compare the instants.\<close>

definition cmpTimes :: "Pos \<Rightarrow> Kind \<Rightarrow> Time \<Rightarrow> Time \<Rightarrow> panicval + bool" where
  "cmpTimes p op a b =
     (case op of
        token_Equal \<Rightarrow> Inr (instant a = instant b)
      | token_NotEqual \<Rightarrow> Inr (instant a \<noteq> instant b)
      | token_LessThan \<Rightarrow> Inr (instant a < instant b)
      | token_LessThanOrEqualTo \<Rightarrow> Inr (instant a < instant b \<or> instant a = instant b)
      | token_GreaterThan \<Rightarrow> Inr (instant b < instant a)
      | token_GreaterThanOrEqualTo \<Rightarrow> Inr (instant b < instant a \<or> instant a = instant b)
      | _ \<Rightarrow> Inl (invalidComparisonOperator p op))"

definition BooleanValue_toInt :: "bool \<Rightarrow> int64" where
  "BooleanValue_toInt v = (if v then 1 else 0)"

definition invalidComparison :: "Pos \<Rightarrow> Kind \<Rightarrow> Value \<Rightarrow> Value \<Rightarrow> panicval" where
  "invalidComparison p op lhs rhs =
     errorf p ''invalid comparison: %s %s %s''
       [ArgValue (Some lhs), ArgKind op, ArgValue (Some rhs)]"

text \<open>
  The double dispatch of \<open>comparisonOp\<close>, case by case as in the source. In the branch
  of a String on the left the source reads the number off \<open>rhs\<close> (\<open>val := rhs.toInteger()\<close>,
  \<open>val := rhs.toNumber()\<close>), and so does this.
\<close>

fun compareValues :: "golib \<Rightarrow> Pos \<Rightarrow> Kind \<Rightarrow> Value \<Rightarrow> Value \<Rightarrow> panicval + bool" where
  "compareValues L p op (BooleanValue a) (BooleanValue b) =
     cmpInts p op (BooleanValue_toInt a) (BooleanValue_toInt b)"
| "compareValues L p op (IntegerValue a) (IntegerValue b) = cmpInts p op a b"
| "compareValues L p op (IntegerValue a) (NumberValue b) = cmpFloats p op (f_of_int64 a) b"
| "compareValues L p op (IntegerValue a) (StringValue b) =
     (case toInteger L (StringValue b) of Inl e \<Rightarrow> Inl e | Inr val \<Rightarrow> cmpInts p op a val)"
| "compareValues L p op (NumberValue a) (IntegerValue b) = cmpFloats p op a (f_of_int64 b)"
| "compareValues L p op (NumberValue a) (NumberValue b) = cmpFloats p op a b"
| "compareValues L p op (NumberValue a) (StringValue b) =
     (case toNumber L (StringValue b) of Inl e \<Rightarrow> Inl e | Inr val \<Rightarrow> cmpFloats p op a val)"
| "compareValues L p op (StringValue a) (IntegerValue b) =
     (case toInteger L (IntegerValue b) of Inl e \<Rightarrow> Inl e | Inr val \<Rightarrow> cmpInts p op val b)"
| "compareValues L p op (StringValue a) (NumberValue b) =
     (case toNumber L (NumberValue b) of Inl e \<Rightarrow> Inl e | Inr val \<Rightarrow> cmpFloats p op val b)"
| "compareValues L p op (StringValue a) (StringValue b) = cmpStrings p op a b"
| "compareValues L p op (StringValue a) (TimestampValue b) =
     (case toTimestamp L (StringValue a) of Inl e \<Rightarrow> Inl e | Inr val \<Rightarrow> cmpTimes p op val b)"
| "compareValues L p op (TimestampValue a) (StringValue b) =
     (case toTimestamp L (StringValue b) of Inl e \<Rightarrow> Inl e | Inr val \<Rightarrow> cmpTimes p op a val)"
| "compareValues L p op (TimestampValue a) (TimestampValue b) = cmpTimes p op a b"
| "compareValues L p op lhs rhs = Inl (invalidComparison p op lhs rhs)"

text \<open>Any comparison involving null evaluates to false.\<close>

fun comparisonOp :: "golib \<Rightarrow> Pos \<Rightarrow> Kind \<Rightarrow> Value option \<Rightarrow> Value option \<Rightarrow> panicval + bool" where
  "comparisonOp L p op None _ = Inr False"
| "comparisonOp L p op _ None = Inr False"
| "comparisonOp L p op (Some lhs) (Some rhs) = compareValues L p op lhs rhs"

definition logicalBooleanOp :: "Pos \<Rightarrow> Kind \<Rightarrow> Value option \<Rightarrow> Value option \<Rightarrow> panicval + bool" where
  "logicalBooleanOp p op lhs rhs =
     (case valueToBoolean lhs of Inl e \<Rightarrow> Inl e | Inr x \<Rightarrow>
      case valueToBoolean rhs of Inl e \<Rightarrow> Inl e | Inr y \<Rightarrow>
      case op of
        token_And \<Rightarrow> Inr (x \<and> y)
      | token_Or \<Rightarrow> Inr (x \<or> y)
      | _ \<Rightarrow> Inl (errorf p ''invalid logical boolean op: %s'' [ArgKind op]))"

text \<open>In both arithmetic functions \<open>r\<close> starts at zero and an operator outside the switch leaves it there.\<close>

definition arithOpInt :: "Pos \<Rightarrow> Kind \<Rightarrow> int64 \<Rightarrow> int64 \<Rightarrow> panicval + Value option" where
  "arithOpInt p op x y =
     (case op of
        token_Plus \<Rightarrow> Inr (Some (IntegerValue (x + y)))
      | token_Minus \<Rightarrow> Inr (Some (IntegerValue (x - y)))
      | token_Mul \<Rightarrow> Inr (Some (IntegerValue (x * y)))
      | token_Div \<Rightarrow>
          if y = 0 then Inl (errorf p ''divide by zero'' [])
          else Inr (Some (IntegerValue (int64_quo x y)))
      | _ \<Rightarrow> Inr (Some (IntegerValue 0)))"

definition arithOpNum :: "golib \<Rightarrow> Pos \<Rightarrow> Kind \<Rightarrow> float64 \<Rightarrow> float64 \<Rightarrow> panicval + Value option" where
  "arithOpNum L p op x y =
     (case op of
        token_Plus \<Rightarrow> Inr (Some (NumberValue (f_add L x y)))
      | token_Minus \<Rightarrow> Inr (Some (NumberValue (f_sub L x y)))
      | token_Mul \<Rightarrow> Inr (Some (NumberValue (f_mul L x y)))
      | token_Div \<Rightarrow>
          if f_eq y f_zero then Inl (errorf p ''divide by zero'' [])
          else Inr (Some (NumberValue (f_div L x y)))
      | _ \<Rightarrow> Inr (Some (NumberValue f_zero)))"

definition invalidArithmetic :: "Pos \<Rightarrow> Kind \<Rightarrow> Value \<Rightarrow> Value \<Rightarrow> panicval" where
  "invalidArithmetic p op lhs rhs =
     errorf p ''invalid arithmetic expression: %s %s %s''
       [ArgValue (Some lhs), ArgKind op, ArgValue (Some rhs)]"

fun arithValues :: "golib \<Rightarrow> Pos \<Rightarrow> Kind \<Rightarrow> Value \<Rightarrow> Value \<Rightarrow> panicval + Value option" where
  "arithValues L p op (IntegerValue a) (IntegerValue b) = arithOpInt p op a b"
| "arithValues L p op (IntegerValue a) (NumberValue b) = arithOpNum L p op (f_of_int64 a) b"
| "arithValues L p op (IntegerValue a) (StringValue b) =
     (case toInteger L (StringValue b) of Inl e \<Rightarrow> Inl e | Inr val \<Rightarrow> arithOpInt p op a val)"
| "arithValues L p op (NumberValue a) (IntegerValue b) = arithOpNum L p op a (f_of_int64 b)"
| "arithValues L p op (NumberValue a) (NumberValue b) = arithOpNum L p op a b"
| "arithValues L p op (NumberValue a) (StringValue b) =
     (case toNumber L (StringValue b) of Inl e \<Rightarrow> Inl e | Inr val \<Rightarrow> arithOpNum L p op a val)"
| "arithValues L p op (StringValue a) (IntegerValue b) =
     (case toInteger L (StringValue a) of Inl e \<Rightarrow> Inl e | Inr val \<Rightarrow> arithOpInt p op val b)"
| "arithValues L p op (StringValue a) (NumberValue b) =
     (case toNumber L (StringValue a) of Inl e \<Rightarrow> Inl e | Inr val \<Rightarrow> arithOpNum L p op val b)"
| "arithValues L p op lhs rhs = Inl (invalidArithmetic p op lhs rhs)"

text \<open>Any arithmetic involving null evaluates to null.\<close>

fun arithmeticOp :: "golib \<Rightarrow> Pos \<Rightarrow> Kind \<Rightarrow> Value option \<Rightarrow> Value option \<Rightarrow> panicval + Value option" where
  "arithmeticOp L p op None _ = Inr None"
| "arithmeticOp L p op _ None = Inr None"
| "arithmeticOp L p op (Some lhs) (Some rhs) = arithValues L p op lhs rhs"

definition invalidUnaryValue :: "Pos \<Rightarrow> Kind \<Rightarrow> Value \<Rightarrow> panicval" where
  "invalidUnaryValue p op v =
     errorf p ''invalid value for unary %s: %s'' [ArgKind op, ArgValue (Some v)]"

definition invalidUnaryOperator :: "Pos \<Rightarrow> Kind \<Rightarrow> panicval" where
  "invalidUnaryOperator p op = errorf p ''invalid unary operator: %s'' [ArgKind op]"

fun unaryArithOp :: "Pos \<Rightarrow> Kind \<Rightarrow> Value option \<Rightarrow> panicval + Value option" where
  "unaryArithOp p op None = Inr None"
| "unaryArithOp p op (Some v) =
     (case op of
        token_Plus \<Rightarrow>
          (case v of
             IntegerValue _ \<Rightarrow> Inr (Some v)
           | NumberValue _ \<Rightarrow> Inr (Some v)
           | _ \<Rightarrow> Inl (invalidUnaryValue p op v))
      | token_Minus \<Rightarrow>
          (case v of
             IntegerValue n \<Rightarrow> Inr (Some (IntegerValue (- n)))
           | NumberValue x \<Rightarrow> Inr (Some (NumberValue (f_neg x)))
           | _ \<Rightarrow> Inl (invalidUnaryValue p op v))
      | _ \<Rightarrow> Inl (invalidUnaryOperator p op))"

text \<open>Any concatenation involving null evaluates to null; the left cast runs first.\<close>

fun concatOp :: "golib \<Rightarrow> Value option \<Rightarrow> Value option \<Rightarrow> panicval + Value option" where
  "concatOp L None _ = Inr None"
| "concatOp L _ None = Inr None"
| "concatOp L (Some lhs) (Some rhs) =
     (case toString L lhs of Inl e \<Rightarrow> Inl e | Inr a \<Rightarrow>
      case toString L rhs of Inl e \<Rightarrow> Inl e | Inr b \<Rightarrow> Inr (Some (StringValue (a @ b))))"

text \<open>The switch of \<open>evalBinaryExpr\<close> on the operator, after both operands are evaluated.\<close>

definition binaryOp :: "golib \<Rightarrow> Pos \<Rightarrow> Kind \<Rightarrow> Value option \<Rightarrow> Value option \<Rightarrow> panicval + Value option" where
  "binaryOp L p op lhs rhs =
     (if op = token_And \<or> op = token_Or then
        mapInr (\<lambda>b. Some (BooleanValue b)) (logicalBooleanOp p op lhs rhs)
      else if op = token_Equal \<or> op = token_GreaterThan \<or> op = token_GreaterThanOrEqualTo
          \<or> op = token_LessThan \<or> op = token_LessThanOrEqualTo \<or> op = token_NotEqual then
        mapInr (\<lambda>b. Some (BooleanValue b)) (comparisonOp L p op lhs rhs)
      else if op = token_Plus \<or> op = token_Minus \<or> op = token_Mul \<or> op = token_Div then
        arithmeticOp L p op lhs rhs
      else if op = token_Concat then concatOp L lhs rhs
      else Inl (errorf p ''invalid binary operator: %s'' [ArgKind op]))"

text \<open>The switch of \<open>evalUnaryExpr\<close> on the operator.\<close>

definition unaryOp :: "Pos \<Rightarrow> Kind \<Rightarrow> Value option \<Rightarrow> panicval + Value option" where
  "unaryOp p op v =
     (if op = token_Plus \<or> op = token_Minus then unaryArithOp p op v
      else Inl (invalidUnaryOperator p op))"

text \<open>
  \<open>evalExpr\<close>, with \<open>evalBinaryExpr\<close> and \<open>evalUnaryExpr\<close> unfolded into their clauses:
  the left operand is evaluated before the right one. \<open>funcs\<close> holds the accumulators
  that the \<open>AggFuncNode\<close>s of a rewritten projection point to.
\<close>

fun evalExpr :: "golib \<Rightarrow> aggFunc list \<Rightarrow> namespace \<Rightarrow> Expr \<Rightarrow> panicval + Value option" where
  "evalExpr L funcs ns (IdentExpr i) = lookup ns (IdentName i)"
| "evalExpr L funcs ns (IntegerLiteral _ n) = Inr (Some (IntegerValue n))"
| "evalExpr L funcs ns (NumberLiteral _ x) = Inr (Some (NumberValue x))"
| "evalExpr L funcs ns (StringLiteral _ s) = Inr (Some (StringValue s))"
| "evalExpr L funcs ns (BooleanLiteral _ b) = Inr (Some (BooleanValue b))"
| "evalExpr L funcs ns (Null _) = Inr None"
| "evalExpr L funcs ns (BinaryExpr l op r) =
     (case evalExpr L funcs ns l of Inl e \<Rightarrow> Inl e | Inr lhs \<Rightarrow>
      case evalExpr L funcs ns r of Inl e \<Rightarrow> Inl e | Inr rhs \<Rightarrow>
      binaryOp L (ExprPos l) op lhs rhs)"
| "evalExpr L funcs ns (UnaryExpr p op e) =
     (case evalExpr L funcs ns e of Inl x \<Rightarrow> Inl x | Inr v \<Rightarrow> unaryOp p op v)"
| "evalExpr L funcs ns (FunctionCall i args) =
     Inl (errorf (NamePos i) ''non-aggregate functions are not implemented'' [])"
| "evalExpr L funcs ns (AggFuncNode p k) =
     (if k < length funcs then Inr (finalize (funcs ! k)) else Inl nilDereference)"
| "evalExpr L funcs ns (SelectStarExpr p) =
     Inl (errorf p ''cannot evaluate expression of type %T'' [ArgExpr (SelectStarExpr p)])"

subsection \<open>eval: the environment and CREATE TABLE (eval/env.go, eval/types.go, eval/eval.go)\<close>

record Environment =
  tables :: "string \<Rightarrow> Table option"

text \<open>The loop of \<open>CreateTable\<close> over the columns with its map \<open>seen\<close>.\<close>

fun duplicateColumn :: "string list \<Rightarrow> Column list \<Rightarrow> string option" where
  "duplicateColumn seen [] = None"
| "duplicateColumn seen (col # cols) =
     (if Name col \<in> set seen then Some (Name col) else duplicateColumn (Name col # seen) cols)"

text \<open>\<open>CreateTable\<close> returns its error; \<open>None\<close> is nil.\<close>

definition CreateTable :: "Environment \<Rightarrow> Table \<Rightarrow> Environment \<times> panicval option" where
  "CreateTable env table =
     (if tables env (TableName table) \<noteq> None then
        (env, Some (PlainError (Sprintf ''relation %q already exists'' [ArgString (TableName table)])))
      else case duplicateColumn [] (Columns table) of
        Some name \<Rightarrow>
          (env, Some (PlainError (Sprintf ''column %q specified more than once'' [ArgString name])))
      | None \<Rightarrow> (env\<lparr>tables := (tables env)(TableName table \<mapsto> table)\<rparr>, None))"

definition lookupTable :: "Environment \<Rightarrow> string \<Rightarrow> panicval + Table" where
  "lookupTable env name =
     (case tables env name of
        Some tab \<Rightarrow> Inr tab
      | None \<Rightarrow> Inl (PlainError (Sprintf ''relation %q does not exist'' [ArgString name])))"

definition dataTypeFromToken :: "Kind \<Rightarrow> panicval + DataType" where
  "dataTypeFromToken tok =
     (case tok of
        token_Boolean \<Rightarrow> Inr eval_Boolean
      | token_Integer \<Rightarrow> Inr eval_Integer
      | token_Number \<Rightarrow> Inr eval_Number
      | token_Varchar \<Rightarrow> Inr eval_String
      | token_Timestamp \<Rightarrow> Inr eval_Timestamp
      | _ \<Rightarrow> Inl (PanicString (Sprintf ''internal error: %q does not refer to a valid data type''
                [ArgKind tok])))"

text \<open>A \<open>Column\<close> literal that names some fields leaves the others at their zero values.\<close>

definition zeroColumn :: Column where
  "zeroColumn = \<lparr>Name = [], Type = InvalidDataType, Default = None, Nullable = False,
     AutoInc = False, NextVal = 0\<rparr>"

fun tableColumns :: "ColumnDefinition list \<Rightarrow> panicval + Column list" where
  "tableColumns [] = Inr []"
| "tableColumns (col # cols) =
     (case dataTypeFromToken (DefType col) of Inl e \<Rightarrow> Inl e | Inr t \<Rightarrow>
      case tableColumns cols of Inl e \<Rightarrow> Inl e | Inr rest \<Rightarrow>
      Inr (zeroColumn\<lparr>Name := IdentName (DefName col), Type := t, Nullable := DefNullable col\<rparr> # rest))"

definition evalCreateTableStmt :: "Environment \<Rightarrow> Ident \<Rightarrow> ColumnDefinition list \<Rightarrow> Environment \<times> (panicval + unit)" where
  "evalCreateTableStmt env tab cols =
     (case tableColumns cols of
        Inl e \<Rightarrow> (env, Inl e)
      | Inr columns \<Rightarrow>
          (case CreateTable env \<lparr>TableName = IdentName tab, Columns = columns, Data = []\<rparr> of
             (env', Some err) \<Rightarrow> (env', Inl err)
           | (env', None) \<Rightarrow> (env', Inr ())))"

subsection \<open>eval: SELECT (eval/eval.go)\<close>

text \<open>The test of the WHERE clause: \<open>bool(evalExpr(ns, stmt.Where).toBoolean())\<close>, true when there is no clause.\<close>

fun whereMatches :: "golib \<Rightarrow> namespace \<Rightarrow> Expr option \<Rightarrow> panicval + bool" where
  "whereMatches L ns None = Inr True"
| "whereMatches L ns (Some w) =
     (case evalExpr L [] ns w of Inl e \<Rightarrow> Inl e | Inr v \<Rightarrow> valueToBoolean v)"

text \<open>\<open>for i, expr := range projection { result[i] = evalExpr(ns, expr) }\<close>\<close>

fun evalExprs :: "golib \<Rightarrow> aggFunc list \<Rightarrow> namespace \<Rightarrow> Expr list \<Rightarrow> panicval + Row" where
  "evalExprs L funcs ns [] = Inr []"
| "evalExprs L funcs ns (expr # exprs) =
     (case evalExpr L funcs ns expr of Inl e \<Rightarrow> Inl e | Inr v \<Rightarrow>
      case evalExprs L funcs ns exprs of Inl e \<Rightarrow> Inl e | Inr vs \<Rightarrow> Inr (v # vs))"

definition expandStar :: "Table \<Rightarrow> Expr list \<Rightarrow> Expr list" where
  "expandStar table columns =
     concat (map (\<lambda>expr. case expr of
        SelectStarExpr p \<Rightarrow> map (\<lambda>col. IdentExpr (Ident p (Name col))) (Columns table)
      | _ \<Rightarrow> [expr]) columns)"

fun selectRows :: "golib \<Rightarrow> Table \<Rightarrow> Expr option \<Rightarrow> Expr list \<Rightarrow> Row list \<Rightarrow> panicval + Row list" where
  "selectRows L table wh projection [] = Inr []"
| "selectRows L table wh projection (row # rows) =
     (case whereMatches L (currentRow table row) wh of Inl e \<Rightarrow> Inl e | Inr m \<Rightarrow>
      if \<not> m then selectRows L table wh projection rows
      else case evalExprs L [] (currentRow table row) projection of Inl e \<Rightarrow> Inl e | Inr result \<Rightarrow>
      case selectRows L table wh projection rows of Inl e \<Rightarrow> Inl e | Inr results \<Rightarrow>
      Inr (result # results))"

definition resultColumn :: "Expr \<Rightarrow> Column" where
  "resultColumn expr =
     zeroColumn\<lparr>Name := (case expr of IdentExpr ident \<Rightarrow> IdentName ident | _ \<Rightarrow> ''?'')\<rparr>"

subsection \<open>eval: aggregate functions (eval/funcs.go)\<close>

definition validateArgCount :: "Pos \<Rightarrow> string \<Rightarrow> Expr list \<Rightarrow> nat \<Rightarrow> panicval + unit" where
  "validateArgCount p FNAME args expected =
     (if length args \<noteq> expected then
        Inl (errorf p ''wrong number of arguments to %s: got %d, want %d''
          [ArgString FNAME, ArgInt (int (length args)), ArgInt (int expected)])
      else Inr ())"

definition isSelectStar :: "Expr \<Rightarrow> bool" where
  "isSelectStar e = (case e of SelectStarExpr _ \<Rightarrow> True | _ \<Rightarrow> False)"

definition newCountAggFunc :: "Pos \<Rightarrow> Expr list \<Rightarrow> panicval + aggFunc" where
  "newCountAggFunc p args =
     (case validateArgCount p ''COUNT'' args 1 of Inl e \<Rightarrow> Inl e | Inr _ \<Rightarrow>
      Inr (Count \<lparr>count_expr = hd args, isStar = isSelectStar (hd args), count = 0\<rparr>))"

definition newMinAggFunc :: "Pos \<Rightarrow> Expr list \<Rightarrow> panicval + aggFunc" where
  "newMinAggFunc p args =
     (case validateArgCount p ''MIN'' args 1 of Inl e \<Rightarrow> Inl e | Inr _ \<Rightarrow>
      Inr (MinMax \<lparr>mm_expr = hd args, fval = f_zero, ival = MaxInt64, mm_isFloat = False, isMin = True\<rparr>))"

definition newMaxAggFunc :: "Pos \<Rightarrow> Expr list \<Rightarrow> panicval + aggFunc" where
  "newMaxAggFunc p args =
     (case validateArgCount p ''MAX'' args 1 of Inl e \<Rightarrow> Inl e | Inr _ \<Rightarrow>
      Inr (MinMax \<lparr>mm_expr = hd args, fval = f_zero, ival = MinInt64, mm_isFloat = False, isMin = False\<rparr>))"

definition newSumAggFunc :: "Pos \<Rightarrow> Expr list \<Rightarrow> panicval + aggFunc" where
  "newSumAggFunc p args =
     (case validateArgCount p ''SUM'' args 1 of Inl e \<Rightarrow> Inl e | Inr _ \<Rightarrow>
      Inr (Sum \<lparr>sum_expr = hd args, fsum = f_zero, isum = 0, sum_isFloat = False\<rparr>))"

definition builtinAggFuncs :: "string \<Rightarrow> (Pos \<Rightarrow> Expr list \<Rightarrow> panicval + aggFunc) option" where
  "builtinAggFuncs name =
     (if name = ''count'' then Some newCountAggFunc
      else if name = ''min'' then Some newMinAggFunc
      else if name = ''max'' then Some newMaxAggFunc
      else if name = ''sum'' then Some newSumAggFunc
      else None)"

definition isAggFunc :: "string \<Rightarrow> bool" where
  "isAggFunc name = (builtinAggFuncs name \<noteq> None)"

definition aggFuncExpr :: "aggFunc \<Rightarrow> Expr" where
  "aggFuncExpr fn = (case fn of Count c \<Rightarrow> count_expr c | MinMax m \<Rightarrow> mm_expr m | Sum s \<Rightarrow> sum_expr s)"

text \<open>
  \<open>aggFuncRewriter.rewrite\<close>: the state is the list \<open>funcs\<close>; a new accumulator is
  appended and the node that stands for it points to its place in the list.
\<close>

fun rewrite :: "aggFunc list \<Rightarrow> Expr \<Rightarrow> panicval + (Expr \<times> aggFunc list)" where
  "rewrite funcs (BinaryExpr l op r) =
     (case rewrite funcs l of Inl e \<Rightarrow> Inl e | Inr (l', funcs1) \<Rightarrow>
      case rewrite funcs1 r of Inl e \<Rightarrow> Inl e | Inr (r', funcs2) \<Rightarrow>
      Inr (BinaryExpr l' op r', funcs2))"
| "rewrite funcs (UnaryExpr p op e) =
     (case rewrite funcs e of Inl x \<Rightarrow> Inl x | Inr (e', funcs1) \<Rightarrow> Inr (UnaryExpr p op e', funcs1))"
| "rewrite funcs (FunctionCall name args) =
     (case builtinAggFuncs (IdentName name) of
        Some constructor \<Rightarrow>
          (case constructor (NamePos name) args of
             Inl e \<Rightarrow> Inl e
           | Inr newNode \<Rightarrow>
               Inr (AggFuncNode (ExprPos (aggFuncExpr newNode)) (length funcs), funcs @ [newNode]))
      | None \<Rightarrow> Inl (errorf (NamePos name) ''unknown function: %s'' [ArgString (IdentName name)]))"
| "rewrite funcs expr = Inr (expr, funcs)"

text \<open>
  \<open>containsAggFunc\<close> and \<open>validateAggExpr\<close> walk the tree with \<open>ast.Walk\<close>: a node, then
  its children from left to right; the children of a function call are its name (an
  identifier node) and its arguments.
\<close>

fun containsAggFunc :: "Expr \<Rightarrow> bool" where
  "containsAggFunc (FunctionCall name args) =
     (isAggFunc (IdentName name) \<or> list_ex containsAggFunc args)"
| "containsAggFunc (BinaryExpr l op r) = (containsAggFunc l \<or> containsAggFunc r)"
| "containsAggFunc (UnaryExpr p op e) = containsAggFunc e"
| "containsAggFunc _ = False"

definition mustGroupBy :: "Ident \<Rightarrow> panicval" where
  "mustGroupBy i =
     errorf (NamePos i)
       ''column %q must appear in the GROUP BY clause or be used in an aggregate function''
       [ArgString (IdentName i)]"

fun validateAggExpr :: "Expr \<Rightarrow> panicval + unit" where
  "validateAggExpr (FunctionCall name args) =
     (if isAggFunc (IdentName name) then
        (case find containsAggFunc args of
           Some arg \<Rightarrow> Inl (errorf (ExprPos arg) ''aggregate function calls cannot be nested'' [])
         | None \<Rightarrow> Inr ())
      else Inl (mustGroupBy name))"
| "validateAggExpr (IdentExpr i) = Inl (mustGroupBy i)"
| "validateAggExpr (BinaryExpr l op r) =
     (case validateAggExpr l of Inl e \<Rightarrow> Inl e | Inr _ \<Rightarrow> validateAggExpr r)"
| "validateAggExpr (UnaryExpr p op e) = validateAggExpr e"
| "validateAggExpr _ = Inr ()"

definition setInt :: "minMaxAggFunc \<Rightarrow> int64 \<Rightarrow> minMaxAggFunc" where
  "setInt fn n =
     (if isMin fn then (if sint n < sint (ival fn) then fn\<lparr>ival := n\<rparr> else fn)
      else (if sint (ival fn) < sint n then fn\<lparr>ival := n\<rparr> else fn))"

definition setFloat :: "minMaxAggFunc \<Rightarrow> float64 \<Rightarrow> minMaxAggFunc" where
  "setFloat fn n =
     (if isMin fn then (if f_lt (fval fn) n then fn\<lparr>fval := n\<rparr> else fn)
      else (if f_lt n (fval fn) then fn\<lparr>fval := n\<rparr> else fn))"

fun step :: "golib \<Rightarrow> namespace \<Rightarrow> aggFunc \<Rightarrow> panicval + aggFunc" where
  "step L ns (Count fn) =
     (if isStar fn then Inr (Count (fn\<lparr>count := count fn + 1\<rparr>))
      else case evalExpr L [] ns (count_expr fn) of
        Inl e \<Rightarrow> Inl e
      | Inr v \<Rightarrow> if v \<noteq> None then Inr (Count (fn\<lparr>count := count fn + 1\<rparr>)) else Inr (Count fn))"
| "step L ns (MinMax fn) =
     (case evalExpr L [] ns (mm_expr fn) of
        Inl e \<Rightarrow> Inl e
      | Inr (Some (IntegerValue n)) \<Rightarrow>
          if mm_isFloat fn then Inr (MinMax (setFloat fn (f_of_int64 n)))
          else Inr (MinMax (setInt fn n))
      | Inr (Some (NumberValue x)) \<Rightarrow>
          Inr (MinMax (setFloat
            (if \<not> mm_isFloat fn then fn\<lparr>mm_isFloat := True, fval := f_of_int64 (ival fn)\<rparr> else fn) x))
      | Inr None \<Rightarrow> Inr (MinMax fn)
      | Inr (Some v) \<Rightarrow>
          Inl (errorf (ExprPos (mm_expr fn)) ''cannot compute MIN of %s'' [ArgValue (Some v)]))"
| "step L ns (Sum fn) =
     (case evalExpr L [] ns (sum_expr fn) of
        Inl e \<Rightarrow> Inl e
      | Inr (Some (IntegerValue n)) \<Rightarrow>
          if sum_isFloat fn then Inr (Sum (fn\<lparr>fsum := f_add L (fsum fn) (f_of_int64 n)\<rparr>))
          else Inr (Sum (fn\<lparr>isum := isum fn + n\<rparr>))
      | Inr (Some (NumberValue x)) \<Rightarrow>
          (let fn1 = (if \<not> sum_isFloat fn
                      then fn\<lparr>sum_isFloat := True, fsum := f_add L (fsum fn) (f_of_int64 (isum fn))\<rparr>
                      else fn)
           in Inr (Sum (fn1\<lparr>fsum := f_add L (fsum fn1) x\<rparr>)))
      | Inr None \<Rightarrow> Inr (Sum fn)
      | Inr (Some v) \<Rightarrow>
          Inl (errorf (ExprPos (sum_expr fn)) ''cannot compute SUM of %s'' [ArgValue (Some v)]))"

text \<open>The inner loop \<open>for _, fn := range rewriter.funcs { fn.step(ns) }\<close>.\<close>

fun stepAll :: "golib \<Rightarrow> namespace \<Rightarrow> aggFunc list \<Rightarrow> panicval + aggFunc list" where
  "stepAll L ns [] = Inr []"
| "stepAll L ns (fn # fns) =
     (case step L ns fn of Inl e \<Rightarrow> Inl e | Inr fn' \<Rightarrow>
      case stepAll L ns fns of Inl e \<Rightarrow> Inl e | Inr fns' \<Rightarrow> Inr (fn' # fns'))"

text \<open>The loop over the rows of \<open>evalAggregateSelectStmt\<close>; the state is the accumulators and \<open>matched\<close>.\<close>

fun aggregateRows :: "golib \<Rightarrow> Table \<Rightarrow> Expr option \<Rightarrow> Row list \<Rightarrow> aggFunc list \<times> bool \<Rightarrow> panicval + aggFunc list \<times> bool" where
  "aggregateRows L table wh [] st = Inr st"
| "aggregateRows L table wh (row # rows) (funcs, matched) =
     (case whereMatches L (currentRow table row) wh of Inl e \<Rightarrow> Inl e | Inr m \<Rightarrow>
      if \<not> m then aggregateRows L table wh rows (funcs, matched)
      else case stepAll L (currentRow table row) funcs of Inl e \<Rightarrow> Inl e | Inr funcs' \<Rightarrow>
      aggregateRows L table wh rows (funcs', True))"

text \<open>\<open>for i, expr := range projection { validateAggExpr(expr); projection[i] = rewriter.rewrite(expr) }\<close>\<close>

fun rewriteProjection :: "aggFunc list \<Rightarrow> Expr list \<Rightarrow> panicval + (Expr list \<times> aggFunc list)" where
  "rewriteProjection funcs [] = Inr ([], funcs)"
| "rewriteProjection funcs (expr # exprs) =
     (case validateAggExpr expr of Inl e \<Rightarrow> Inl e | Inr _ \<Rightarrow>
      case rewrite funcs expr of Inl e \<Rightarrow> Inl e | Inr (expr', funcs1) \<Rightarrow>
      case rewriteProjection funcs1 exprs of Inl e \<Rightarrow> Inl e | Inr (exprs', funcs2) \<Rightarrow>
      Inr (expr' # exprs', funcs2))"

definition evalAggregateSelectStmt :: "golib \<Rightarrow> Expr option \<Rightarrow> Table \<Rightarrow> Expr list \<Rightarrow> panicval + Table" where
  "evalAggregateSelectStmt L wh table projection =
     (case rewriteProjection [] projection of Inl e \<Rightarrow> Inl e | Inr (projection', funcs0) \<Rightarrow>
      case aggregateRows L table wh (Data table) (funcs0, False) of Inl e \<Rightarrow> Inl e | Inr (funcs, matched) \<Rightarrow>
      case (if matched
            then mapInr (\<lambda>result. [result]) (evalExprs L funcs emptyNamespace projection')
            else Inr []) of Inl e \<Rightarrow> Inl e | Inr data \<Rightarrow>
      Inr \<lparr>TableName = [], Columns = map (\<lambda>_. zeroColumn\<lparr>Name := ''?''\<rparr>) projection', Data = data\<rparr>)"

definition evalSelectStmt :: "golib \<Rightarrow> Environment \<Rightarrow> Pos \<Rightarrow> Expr list \<Rightarrow> Expr \<Rightarrow> Expr option \<Rightarrow> panicval + Table" where
  "evalSelectStmt L env p columns tab wh =
     (case tab of
        IdentExpr tableExpr \<Rightarrow>
          (case lookupTable env (IdentName tableExpr) of Inl e \<Rightarrow> Inl e | Inr table \<Rightarrow>
           let projection = expandStar table columns in
           if list_ex containsAggFunc projection then evalAggregateSelectStmt L wh table projection
           else case selectRows L table wh projection (Data table) of Inl e \<Rightarrow> Inl e | Inr results \<Rightarrow>
           Inr \<lparr>TableName = [], Columns = map resultColumn projection, Data = results\<rparr>)
      | _ \<Rightarrow> Inl (errorf p ''table subexpressions not supported'' []))"

subsection \<open>eval: INSERT (eval/db.go, eval/eval.go)\<close>

text \<open>
  The placement loop of \<open>insert\<close> under a list of names: the value of the first name that
  is the column's, else the next auto-increment value (the column's counter moves on),
  else the default. \<open>len(names) = len(values)\<close> holds there.
\<close>

fun place :: "string list \<Rightarrow> Row \<Rightarrow> Column list \<Rightarrow> Row \<times> Column list" where
  "place names values [] = ([], [])"
| "place names values (col # cols) =
     (case place names values cols of (row, cols') \<Rightarrow>
      case map_of (zip names values) (Name col) of
        Some v \<Rightarrow> (v # row, col # cols')
      | None \<Rightarrow>
          if Type col = eval_Integer \<and> AutoInc col
          then (Some (IntegerValue (NextVal col)) # row, col\<lparr>NextVal := NextVal col + 1\<rparr> # cols')
          else (Default col # row, col # cols'))"

text \<open>The last loop of \<open>insert\<close>: coerce to the column's type, enforce not-null.\<close>

fun coerceRow :: "golib \<Rightarrow> Column list \<Rightarrow> Row \<Rightarrow> panicval + Row" where
  "coerceRow L cols [] = Inr []"
| "coerceRow L [] (value # row) = Inl indexOutOfRange"
| "coerceRow L (col # cols) (value # row) =
     (case (case value of
              Some v \<Rightarrow> mapInr Some (coerce L v (Type col))
            | None \<Rightarrow>
                if \<not> Nullable col
                then Inl (PlainError (Sprintf ''null value in column %q violates not-null constraint''
                      [ArgString (Name col)]))
                else Inr None) of Inl e \<Rightarrow> Inl e | Inr value' \<Rightarrow>
      case coerceRow L cols row of Inl e \<Rightarrow> Inl e | Inr row' \<Rightarrow> Inr (value' # row'))"

text \<open>\<open>copy(row, values)\<close> into a row of \<open>n\<close> nils.\<close>

definition copyInto :: "nat \<Rightarrow> Row \<Rightarrow> Row" where
  "copyInto n values = take n values @ replicate (n - length values) None"

text \<open>
  \<open>Table.insert\<close>. The table comes back also when the insert panics: the placement
  loop has then moved the counters of its auto-increment columns.
\<close>

definition insert_row :: "golib \<Rightarrow> Table \<Rightarrow> string list \<Rightarrow> Row \<Rightarrow> Table \<times> (panicval + unit)" where
  "insert_row L tab names values =
     (let numTargets = (if length names = 0 then length (Columns tab) else length names) in
      if numTargets \<noteq> length values then
        (tab, Inl (PlainError (Sprintf ''INSERT has %d expressions but %d target columns''
           [ArgInt (int (length values)), ArgInt (int numTargets)])))
      else if length names \<noteq> 0 then
        (case find (\<lambda>name. colIndex tab name < 0) names of
           Some name \<Rightarrow>
             (tab, Inl (PlainError (Sprintf ''column %q of relation %q does not exist''
                [ArgString name, ArgString (TableName tab)])))
         | None \<Rightarrow>
             (case place names values (Columns tab) of (row, cols') \<Rightarrow>
              case coerceRow L cols' row of
                Inl e \<Rightarrow> (tab\<lparr>Columns := cols'\<rparr>, Inl e)
              | Inr row' \<Rightarrow> (tab\<lparr>Columns := cols', Data := Data tab @ [row']\<rparr>, Inr ())))
      else
        (case coerceRow L (Columns tab) (copyInto (length (Columns tab)) values) of
           Inl e \<Rightarrow> (tab, Inl e)
         | Inr row' \<Rightarrow> (tab\<lparr>Data := Data tab @ [row']\<rparr>, Inr ())))"

definition evalInsertStmt :: "golib \<Rightarrow> Environment \<Rightarrow> Ident \<Rightarrow> Ident list \<Rightarrow> Expr list \<Rightarrow> Environment \<times> (panicval + unit)" where
  "evalInsertStmt L env tab columns vals =
     (case lookupTable env (IdentName tab) of Inl e \<Rightarrow> (env, Inl e) | Inr table \<Rightarrow>
      case evalExprs L [] emptyNamespace vals of Inl e \<Rightarrow> (env, Inl e) | Inr values \<Rightarrow>
      case insert_row L table (map IdentName columns) values of
        (table', r) \<Rightarrow> (env\<lparr>tables := (tables env)(IdentName tab \<mapsto> table')\<rparr>, r))"

subsection \<open>eval: UPDATE and DELETE (eval/eval.go)\<close>

text \<open>
  The SET loop on one row. In the source \<open>row\<close>, \<open>ns.row\<close> and the element of
  \<open>table.Data\<close> are slices over one array, so \<open>row[n] = ...\<close> writes what \<open>ns\<close> reads:
  the namespace of each assignment is built from the row as it is now. The right-hand
  side is evaluated before the index \<open>n\<close> is checked against the row.
\<close>

fun applySet :: "golib \<Rightarrow> Table \<Rightarrow> Ident list \<Rightarrow> Expr list \<Rightarrow> Row \<Rightarrow> Row \<times> (panicval + unit)" where
  "applySet L table [] vals row = (row, Inr ())"
| "applySet L table (name # names) vals row =
     (let n = colIndex table (IdentName name) in
      if n < 0 then
        (row, Inl (errorf (NamePos name) ''column %q of relation %q does not exist''
           [ArgString (IdentName name), ArgString (TableName table)]))
      else case vals of
        [] \<Rightarrow> (row, Inl indexOutOfRange)
      | val # vals' \<Rightarrow>
          (case evalExpr L [] (currentRow table row) val of
             Inl e \<Rightarrow> (row, Inl e)
           | Inr v \<Rightarrow>
               if nat n < length row then applySet L table names vals' (row[nat n := v])
               else (row, Inl indexOutOfRange)))"

text \<open>The loop over the rows; the rows written before a panic stay written.\<close>

fun updateRows :: "golib \<Rightarrow> Table \<Rightarrow> Ident list \<Rightarrow> Expr list \<Rightarrow> Expr option \<Rightarrow> Row list \<Rightarrow> Row list \<times> (panicval + unit)" where
  "updateRows L table names vals wh [] = ([], Inr ())"
| "updateRows L table names vals wh (row # rows) =
     (case whereMatches L (currentRow table row) wh of
        Inl e \<Rightarrow> (row # rows, Inl e)
      | Inr m \<Rightarrow>
          if \<not> m then (case updateRows L table names vals wh rows of (rows', r) \<Rightarrow> (row # rows', r))
          else case applySet L table names vals row of
            (row', Inl e) \<Rightarrow> (row' # rows, Inl e)
          | (row', Inr _) \<Rightarrow>
              (case updateRows L table names vals wh rows of (rows', r) \<Rightarrow> (row' # rows', r)))"

definition evalUpdateStmt :: "golib \<Rightarrow> Environment \<Rightarrow> Ident \<Rightarrow> Ident list \<Rightarrow> Expr list \<Rightarrow> Expr option \<Rightarrow> Environment \<times> (panicval + unit)" where
  "evalUpdateStmt L env tab columns vals wh =
     (case lookupTable env (IdentName tab) of Inl e \<Rightarrow> (env, Inl e) | Inr table \<Rightarrow>
      case updateRows L table columns vals wh (Data table) of
        (data', r) \<Rightarrow> (env\<lparr>tables := (tables env)(IdentName tab \<mapsto> table\<lparr>Data := data'\<rparr>)\<rparr>, r))"

text \<open>
  The loop of \<open>evalDeleteStmt\<close> that builds \<open>newData\<close>: a row is appended only inside
  \<open>if stmt.Where != nil\<close>, when the clause is false on it.
\<close>

fun deleteRows :: "golib \<Rightarrow> Table \<Rightarrow> Expr option \<Rightarrow> Row list \<Rightarrow> panicval + Row list" where
  "deleteRows L table wh [] = Inr []"
| "deleteRows L table None (row # rows) = deleteRows L table None rows"
| "deleteRows L table (Some w) (row # rows) =
     (case whereMatches L (currentRow table row) (Some w) of Inl e \<Rightarrow> Inl e | Inr m \<Rightarrow>
      case deleteRows L table (Some w) rows of Inl e \<Rightarrow> Inl e | Inr newData \<Rightarrow>
      Inr (if \<not> m then row # newData else newData))"

definition evalDeleteStmt :: "golib \<Rightarrow> Environment \<Rightarrow> Ident \<Rightarrow> Expr option \<Rightarrow> Environment \<times> (panicval + unit)" where
  "evalDeleteStmt L env tab wh =
     (case lookupTable env (IdentName tab) of Inl e \<Rightarrow> (env, Inl e) | Inr table \<Rightarrow>
      case deleteRows L table wh (Data table) of
        Inl e \<Rightarrow> (env, Inl e)
      | Inr newData \<Rightarrow>
          (env\<lparr>tables := (tables env)(IdentName tab \<mapsto> table\<lparr>Data := newData\<rparr>)\<rparr>, Inr ()))"

subsection \<open>eval: the entry point (eval/eval.go)\<close>

text \<open>
  What the caller of an entry point sees: a return, or a panic that unwinds through it.
\<close>

datatype 'a outcome = Returns 'a | Panics panicval

text \<open>
  The deferred function of \<open>EvalStmt\<close>: a recovered error is returned as it is, any
  other recovered value inside a new \<open>*eval.Error\<close> at the statement's position.
\<close>

definition recovered :: "Node \<Rightarrow> panicval \<Rightarrow> panicval" where
  "recovered stmt r =
     (if isError r then r
      else errorf (NodePos stmt) ''%s'' [case r of PanicString m \<Rightarrow> ArgMsg m | _ \<Rightarrow> ArgString []])"

definition returned :: "Node \<Rightarrow> Environment \<times> (panicval + unit) \<Rightarrow> (Environment \<times> Table option \<times> panicval option) outcome" where
  "returned stmt r =
     (case r of
        (env', Inl e) \<Rightarrow> Returns (env', None, Some (recovered stmt e))
      | (env', Inr _) \<Rightarrow> Returns (env', None, None))"

text \<open>\<open>EvalStmt\<close>: the environment after the call, the result table (nil: \<open>None\<close>) and the error (nil: \<open>None\<close>).\<close>

fun EvalStmt :: "golib \<Rightarrow> Environment \<Rightarrow> Node \<Rightarrow> (Environment \<times> Table option \<times> panicval option) outcome" where
  "EvalStmt L env (CreateTableStmt p tab cols) =
     returned (CreateTableStmt p tab cols) (evalCreateTableStmt env tab cols)"
| "EvalStmt L env (SelectStmt p columns tab wh) =
     (case evalSelectStmt L env p columns tab wh of
        Inl e \<Rightarrow> Returns (env, None, Some (recovered (SelectStmt p columns tab wh) e))
      | Inr table \<Rightarrow> Returns (env, Some table, None))"
| "EvalStmt L env (InsertStmt p tab columns vals) =
     returned (InsertStmt p tab columns vals) (evalInsertStmt L env tab columns vals)"
| "EvalStmt L env (UpdateStmt p tab columns vals wh) =
     returned (UpdateStmt p tab columns vals wh) (evalUpdateStmt L env tab columns vals wh)"
| "EvalStmt L env (DeleteStmt p tab wh) =
     returned (DeleteStmt p tab wh) (evalDeleteStmt L env tab wh)"
| "EvalStmt L env (ExprNode e) =
     Returns (env, None, Some (errorf (ExprPos e) ''cannot evaluate non-statement %t'' [ArgNode (ExprNode e)]))"

subsection \<open>cmd/evaluate: the loop over the statements (cmd/evaluate/evaluate.go)\<close>

text \<open>
  \<open>main\<close> executes all the statements in the same environment, one after the other,
  whatever each returns; what it prints is left out.
\<close>

fun EvalStmts :: "golib \<Rightarrow> Environment \<Rightarrow> Node list \<Rightarrow> Environment outcome" where
  "EvalStmts L env [] = Returns env"
| "EvalStmts L env (stmt # stmts) =
     (case EvalStmt L env stmt of
        Returns (env', _, _) \<Rightarrow> EvalStmts L env' stmts
      | Panics r \<Rightarrow> Panics r)"

subsection \<open>Runes and strings\<close>

definition rune :: "char \<Rightarrow> rune" where
  "rune c = of_char c"

definition singleQuote :: rune where
  "singleQuote = 39"

definition newline :: rune where
  "newline = 10"

definition carriageReturn :: rune where
  "carriageReturn = 13"

text \<open>
  The predicates of package unicode: a fixed answer on Latin-1, the range table beyond
  it. The letters of Latin-1 are A-Z, a-z, U+00AA, U+00B5, U+00BA, U+00C0-U+00D6,
  U+00D8-U+00F6 and U+00F8-U+00FF.
\<close>

definition IsSpace :: "golib \<Rightarrow> rune \<Rightarrow> bool" where
  "IsSpace L r =
     (if r \<le> 0xFF then r \<in> {9, 10, 11, 12, 13, 32, 0x85, 0xA0}
      else unicode_White_Space L r)"

definition IsDigit :: "golib \<Rightarrow> rune \<Rightarrow> bool" where
  "IsDigit L r = (if r \<le> 0xFF then 48 \<le> r \<and> r \<le> 57 else unicode_Digit L r)"

definition IsLetter :: "golib \<Rightarrow> rune \<Rightarrow> bool" where
  "IsLetter L r =
     (if r \<le> 0xFF then
        (65 \<le> r \<and> r \<le> 90) \<or> (97 \<le> r \<and> r \<le> 122) \<or> r = 0xAA \<or> r = 0xB5 \<or> r = 0xBA
        \<or> (0xC0 \<le> r \<and> r \<le> 0xD6) \<or> (0xD8 \<le> r \<and> r \<le> 0xF6) \<or> 0xF8 \<le> r
      else unicode_Letter L r)"

text \<open>\<open>strings.ToLower\<close>: on an ASCII string, the letters A-Z move to a-z.\<close>

definition ToLower :: "golib \<Rightarrow> string \<Rightarrow> string" where
  "ToLower L s =
     (if list_all (\<lambda>c. (of_char c :: nat) < 0x80) s
      then map (\<lambda>c. if 65 \<le> (of_char c :: nat) \<and> (of_char c :: nat) \<le> 90
                      then char_of ((of_char c :: nat) + 32) else c) s
      else strings_ToLower L s)"

text \<open>
  \<open>string(runes)\<close>: the UTF-8 encoding; a surrogate or a value past U+10FFFF is
  encoded as U+FFFD.
\<close>

definition utf8_rune :: "rune \<Rightarrow> string" where
  "utf8_rune r =
     (if r < 0x80 then [char_of r]
      else if r < 0x800 then [char_of (0xC0 + r div 64), char_of (0x80 + r mod 64)]
      else if (0xD800 \<le> r \<and> r < 0xE000) \<or> 0x10FFFF < r then [char_of (0xEF :: nat), char_of (0xBF :: nat), char_of (0xBD :: nat)]
      else if r < 0x10000 then
        [char_of (0xE0 + r div 4096), char_of (0x80 + (r div 64) mod 64), char_of (0x80 + r mod 64)]
      else
        [char_of (0xF0 + r div 262144), char_of (0x80 + (r div 4096) mod 64),
         char_of (0x80 + (r div 64) mod 64), char_of (0x80 + r mod 64)])"

definition string_of_runes :: "rune list \<Rightarrow> string" where
  "string_of_runes rs = concat (map utf8_rune rs)"

subsection \<open>lexer (lexer/lexer.go, lexer/lines.go, lexer/error.go)\<close>

definition sqlKeywords :: "string \<Rightarrow> Kind option" where
  "sqlKeywords = map_of
     [(''and'', token_And), (''boolean'', token_Boolean), (''create'', token_Create),
      (''delete'', token_Delete), (''false'', token_False), (''from'', token_From),
      (''insert'', token_Insert), (''integer'', token_Integer), (''into'', token_Into),
      (''not'', token_Not), (''null'', token_Null), (''number'', token_Number),
      (''or'', token_Or), (''select'', token_Select), (''set'', token_Set),
      (''table'', token_Table), (''timestamp'', token_Timestamp), (''true'', token_True),
      (''update'', token_Update), (''values'', token_Values), (''varchar'', token_Varchar),
      (''where'', token_Where)]"

text \<open>The input is the rune sequence \<open>[]rune(input)\<close> of the text.\<close>

record Lexer =
  lex_input :: "rune list"
  lex_pos :: nat
  lex_line :: int
  lex_linePos :: int
  lex_tok :: Token
  lex_err :: "panicval option"

definition zeroToken :: Token where
  "zeroToken = \<lparr>Kind = token_Invalid, TokPos = zeroPos, Lit = []\<rparr>"

definition New :: "rune list \<Rightarrow> Lexer" where
  "New inp = \<lparr>lex_input = inp, lex_pos = 0, lex_line = 1, lex_linePos = 0,
     lex_tok = zeroToken, lex_err = None\<rparr>"

definition nextRune :: "Lexer \<Rightarrow> rune" where
  "nextRune lx =
     (if lex_pos lx + 1 < length (lex_input lx) then lex_input lx ! (lex_pos lx + 1) else 0)"

definition getPos :: "Lexer \<Rightarrow> Pos" where
  "getPos lx = \<lparr>Line = lex_line lx, Column = int (lex_pos lx) - lex_linePos lx\<rparr>"

definition setToken :: "Kind \<Rightarrow> Lexer \<Rightarrow> Lexer" where
  "setToken kind lx = lx\<lparr>lex_tok := (lex_tok lx)\<lparr>Kind := kind, TokPos := getPos lx\<rparr>\<rparr>"

definition setLit :: "string \<Rightarrow> Lexer \<Rightarrow> Lexer" where
  "setLit lit lx = lx\<lparr>lex_tok := (lex_tok lx)\<lparr>Lit := lit\<rparr>\<rparr>"

text \<open>\<open>lex.errorf\<close>: a \<open>*lexer.Error\<close> at the current line and column.\<close>

definition lex_errorf :: "Lexer \<Rightarrow> string \<Rightarrow> Arg list \<Rightarrow> panicval" where
  "lex_errorf lx format args = PosError (getPos lx) (Sprintf format args)"

record lineTracker =
  t_line :: int
  t_linePos :: int

definition newLineTracker :: "Lexer \<Rightarrow> lineTracker" where
  "newLineTracker lx = \<lparr>t_line = lex_line lx, t_linePos = lex_linePos lx\<rparr>"

definition tracker_next :: "lineTracker \<Rightarrow> nat \<Rightarrow> lineTracker" where
  "tracker_next t lineEndPos = \<lparr>t_line = t_line t + 1, t_linePos = int lineEndPos + 1\<rparr>"

definition tracker_sync :: "lineTracker \<Rightarrow> Lexer \<Rightarrow> Lexer" where
  "tracker_sync t lx = lx\<lparr>lex_line := t_line t, lex_linePos := t_linePos t\<rparr>"

text \<open>The loop of \<open>skipSpace\<close>; at the end of the input the tracker is not synced.\<close>

function skipSpaceLoop :: "golib \<Rightarrow> lineTracker \<Rightarrow> Lexer \<Rightarrow> bool \<times> Lexer" where
  "skipSpaceLoop L t lx =
     (if lex_pos lx < length (lex_input lx) then
        if \<not> IsSpace L (lex_input lx ! lex_pos lx) then (True, tracker_sync t lx)
        else if lex_input lx ! lex_pos lx = newline then
          skipSpaceLoop L (tracker_next t (lex_pos lx)) (lx\<lparr>lex_pos := lex_pos lx + 1\<rparr>)
        else if lex_input lx ! lex_pos lx = carriageReturn then
          (let lex1 = (if nextRune lx = newline then lx\<lparr>lex_pos := lex_pos lx + 1\<rparr> else lx)
           in skipSpaceLoop L (tracker_next t (lex_pos lex1)) (lex1\<lparr>lex_pos := lex_pos lex1 + 1\<rparr>))
        else skipSpaceLoop L t (lx\<lparr>lex_pos := lex_pos lx + 1\<rparr>)
      else (False, lx))"
  by pat_completeness auto
termination
  by (relation "measure (\<lambda>(L, t, lx). length (lex_input lx) - lex_pos lx)") auto

declare skipSpaceLoop.simps [simp del]

definition skipSpace :: "golib \<Rightarrow> Lexer \<Rightarrow> bool \<times> Lexer" where
  "skipSpace L lx = skipSpaceLoop L (newLineTracker lx) lx"

definition consumeRune :: "Kind \<Rightarrow> Lexer \<Rightarrow> bool \<times> Lexer" where
  "consumeRune kind lx = (True, (setToken kind lx)\<lparr>lex_pos := lex_pos lx + 1\<rparr>)"

definition isNumberRune :: "rune \<Rightarrow> bool" where
  "isNumberRune r = ((48 \<le> r \<and> r \<le> 57) \<or> r = rune CHR ''.'' \<or> r = rune CHR ''e'')"

text \<open>
  \<open>consumeNumber\<close>: the loop stops at the first rune that is not one of
  \<open>0123456789.e\<close>; with none read the function panics with a string.
\<close>

definition consumeNumber :: "golib \<Rightarrow> Lexer \<Rightarrow> panicval + bool \<times> Lexer" where
  "consumeNumber L lx =
     (let digits = takeWhile isNumberRune (drop (lex_pos lx) (lex_input lx));
          i = lex_pos lx + length digits in
      if i = lex_pos lx then Inl (PanicString (Sprintf ''expected a number'' []))
      else
        let lit = string_of_runes digits in
        if \<not> snd (ParseFloat L lit) then
          Inr (False, lx\<lparr>lex_err := Some (lex_errorf lx ''invalid numeric literal: %s'' [ArgString lit])\<rparr>)
        else Inr (True, (setLit lit (setToken token_NumberLiteral lx))\<lparr>lex_pos := i\<rparr>))"

text \<open>
  The loop of \<open>consumeQuotedString\<close> from index \<open>i\<close>, with the runes read so far. The
  case of a carriage return is the source's, with its test \<open>lex.input[i] == '\n'\<close>.
\<close>

function quotedStringLoop :: "Lexer \<Rightarrow> lineTracker \<Rightarrow> rune list \<Rightarrow> nat \<Rightarrow> bool \<times> Lexer" where
  "quotedStringLoop lx t runes i =
     (if i < length (lex_input lx) then
        if lex_input lx ! i = singleQuote then
          if i + 1 < length (lex_input lx) \<and> lex_input lx ! (i + 1) = singleQuote
          then quotedStringLoop lx t (runes @ [singleQuote]) (i + 2)
          else (True, (tracker_sync t (setLit (string_of_runes runes) (setToken token_StringLiteral lx)))
                        \<lparr>lex_pos := i + 1\<rparr>)
        else if lex_input lx ! i = newline then
          quotedStringLoop lx (tracker_next t i) (runes @ [lex_input lx ! i]) (i + 1)
        else if lex_input lx ! i = carriageReturn then
          (let ri = (if i + 1 < length (lex_input lx) \<and> lex_input lx ! i = newline
                     then (runes @ [lex_input lx ! i], i + 1) else (runes, i))
           in quotedStringLoop lx (tracker_next t (snd ri))
                (fst ri @ [lex_input lx ! snd ri]) (snd ri + 1))
        else quotedStringLoop lx t (runes @ [lex_input lx ! i]) (i + 1)
      else (False, lx\<lparr>lex_err := Some (lex_errorf lx ''unterminated string'' [])\<rparr>))"
  by pat_completeness auto
termination
  by (relation "measure (\<lambda>(lx, t, runes, i). length (lex_input lx) - i)") (auto split: if_splits)

declare quotedStringLoop.simps [simp del]

definition consumeQuotedString :: "Lexer \<Rightarrow> panicval + bool \<times> Lexer" where
  "consumeQuotedString lx =
     (if lex_input lx ! lex_pos lx \<noteq> singleQuote
      then Inl (PanicString (Sprintf ''called on non single-quote char'' []))
      else Inr (quotedStringLoop lx (newLineTracker lx) [] (lex_pos lx + 1)))"

text \<open>\<open>matchString\<close> for the two-rune operators: \<open>None\<close> is its \<open>false\<close>.\<close>

definition matchString :: "rune list \<Rightarrow> Kind \<Rightarrow> Lexer \<Rightarrow> Lexer option" where
  "matchString s kind lx =
     (if length (lex_input lx) < lex_pos lx + length s then None
      else if take (length s) (drop (lex_pos lx) (lex_input lx)) \<noteq> s then None
      else Some ((setToken kind lx)\<lparr>lex_pos := lex_pos lx + length s\<rparr>))"

definition isIdentRune :: "golib \<Rightarrow> rune \<Rightarrow> bool" where
  "isIdentRune L r = (IsLetter L r \<or> IsDigit L r \<or> r = rune CHR ''_'')"

definition nextWord :: "golib \<Rightarrow> Lexer \<Rightarrow> panicval + string" where
  "nextWord L lx =
     (if length (lex_input lx) \<le> lex_pos lx then Inl (PanicString (Sprintf ''input exhausted'' []))
      else if \<not> IsLetter L (lex_input lx ! lex_pos lx) \<and> lex_input lx ! lex_pos lx \<noteq> rune CHR ''_''
      then Inr []
      else Inr (string_of_runes (lex_input lx ! lex_pos lx
                  # takeWhile (isIdentRune L) (drop (lex_pos lx + 1) (lex_input lx)))))"

text \<open>The part of \<open>Scan\<close> after its switch: a number, a keyword, an identifier, or an error.\<close>

definition scanWord :: "golib \<Rightarrow> Lexer \<Rightarrow> panicval + bool \<times> Lexer" where
  "scanWord L lx =
     (if IsDigit L (lex_input lx ! lex_pos lx) then consumeNumber L lx
      else case nextWord L lx of Inl e \<Rightarrow> Inl e | Inr w \<Rightarrow>
        let word = ToLower L w in
        if word \<noteq> [] then
          (case sqlKeywords word of
             Some kind \<Rightarrow> Inr (True, (setToken kind lx)\<lparr>lex_pos := lex_pos lx + length word\<rparr>)
           | None \<Rightarrow>
               Inr (True, (setLit word (setToken token_Ident lx))\<lparr>lex_pos := lex_pos lx + length word\<rparr>))
        else Inr (False, lx\<lparr>lex_err := Some (lex_errorf lx ''unexpected character: %c''
                    [ArgRune (lex_input lx ! lex_pos lx)])\<rparr>))"

text \<open>The switch of \<open>Scan\<close> on the first rune after the white space.\<close>

definition scanRune :: "golib \<Rightarrow> rune \<Rightarrow> Lexer \<Rightarrow> panicval + bool \<times> Lexer" where
  "scanRune L r lx =
     (if r = rune CHR '','' then Inr (consumeRune token_Comma lx)
      else if r = rune CHR ''|'' then
        (case matchString [rune CHR ''|'', rune CHR ''|''] token_Concat lx of
           Some lx' \<Rightarrow> Inr (True, lx') | None \<Rightarrow> scanWord L lx)
      else if r = rune CHR ''/'' then Inr (consumeRune token_Div lx)
      else if r = rune CHR ''.'' then
        (if IsDigit L (nextRune lx) then consumeNumber L lx else Inr (consumeRune token_Dot lx))
      else if r = rune CHR ''='' then Inr (consumeRune token_Equal lx)
      else if r = rune CHR ''>'' then
        (case matchString [rune CHR ''>'', rune CHR ''=''] token_GreaterThanOrEqualTo lx of
           Some lx' \<Rightarrow> Inr (True, lx') | None \<Rightarrow> Inr (consumeRune token_GreaterThan lx))
      else if r = rune CHR ''('' then Inr (consumeRune token_LeftParen lx)
      else if r = rune CHR ''<'' then
        (case matchString [rune CHR ''<'', rune CHR ''=''] token_LessThanOrEqualTo lx of
           Some lx' \<Rightarrow> Inr (True, lx') | None \<Rightarrow> Inr (consumeRune token_LessThan lx))
      else if r = rune CHR ''-'' then Inr (consumeRune token_Minus lx)
      else if r = rune CHR ''*'' then Inr (consumeRune token_Mul lx)
      else if r = rune CHR ''!'' then
        (case matchString [rune CHR ''!'', rune CHR ''=''] token_NotEqual lx of
           Some lx' \<Rightarrow> Inr (True, lx') | None \<Rightarrow> scanWord L lx)
      else if r = rune CHR ''+'' then Inr (consumeRune token_Plus lx)
      else if r = rune CHR '')'' then Inr (consumeRune token_RightParen lx)
      else if r = rune CHR '';'' then Inr (consumeRune token_Semicolon lx)
      else if r = singleQuote then consumeQuotedString lx
      else scanWord L lx)"

definition Scan :: "golib \<Rightarrow> Lexer \<Rightarrow> panicval + bool \<times> Lexer" where
  "Scan L lx =
     (if lex_err lx \<noteq> None then Inr (False, lx)
      else case skipSpace L (lx\<lparr>lex_tok := zeroToken\<lparr>TokPos := getPos lx\<rparr>\<rparr>) of
        (False, lex1) \<Rightarrow> Inr (False, lex1)
      | (True, lex1) \<Rightarrow> scanRune L (lex_input lex1 ! lex_pos lex1) lex1)"


subsection \<open>parser (parser/parser.go, parser/error.go)\<close>

text \<open>
  The parser's state is its lexer. A parsing function returns its value and the lexer
  after it, or panics. The recursion of the source is bounded here by fuel, one unit
  for each call of a recursive function and each turn of a loop; \<open>OutOfFuel\<close> is the
  model's only, and says that the fuel given was too little.
\<close>

datatype 'a presult = OutOfFuel | Panic panicval | Ok 'a Lexer

definition thenP :: "'a presult \<Rightarrow> ('a \<Rightarrow> Lexer \<Rightarrow> 'b presult) \<Rightarrow> 'b presult" where
  "thenP m k = (case m of OutOfFuel \<Rightarrow> OutOfFuel | Panic e \<Rightarrow> Panic e | Ok x lx \<Rightarrow> k x lx)"

definition p_kind :: "Lexer \<Rightarrow> Kind" where
  "p_kind lx = Kind (lex_tok lx)"

definition p_pos :: "Lexer \<Rightarrow> Pos" where
  "p_pos lx = TokPos (lex_tok lx)"

text \<open>\<open>p.errorf\<close> panics with a \<open>*parser.Error\<close> at the current token.\<close>

definition p_errorf :: "Lexer \<Rightarrow> string \<Rightarrow> Arg list \<Rightarrow> panicval" where
  "p_errorf lx format args = PosError (p_pos lx) (Sprintf format args)"

definition expected :: "Lexer \<Rightarrow> Kind list \<Rightarrow> panicval" where
  "expected lx kinds =
     p_errorf lx ''current token is %q, want one of %+v'' [ArgKind (p_kind lx), ArgKinds kinds]"

text \<open>\<open>p.next\<close>: the current token is returned, the lexer scans on, its error is a panic.\<close>

definition p_next :: "golib \<Rightarrow> Lexer \<Rightarrow> Token presult" where
  "p_next L lx =
     (case Scan L lx of
        Inl e \<Rightarrow> Panic e
      | Inr (_, lx') \<Rightarrow> (case lex_err lx' of Some err \<Rightarrow> Panic err | None \<Rightarrow> Ok (lex_tok lx) lx'))"

definition p_skip :: "golib \<Rightarrow> Kind \<Rightarrow> Lexer \<Rightarrow> Token presult" where
  "p_skip L k lx =
     (if p_kind lx \<noteq> k
      then Panic (p_errorf lx ''tried to skip(%s) but token is %s'' [ArgKind k, ArgKind (p_kind lx)])
      else p_next L lx)"

definition p_match :: "golib \<Rightarrow> Kind \<Rightarrow> Lexer \<Rightarrow> Token presult" where
  "p_match L k lx = (if p_kind lx \<noteq> k then Panic (expected lx [k]) else p_next L lx)"

definition parseIdent :: "golib \<Rightarrow> Lexer \<Rightarrow> Ident presult" where
  "parseIdent L lx = thenP (p_match L token_Ident lx) (\<lambda>tok lx1. Ok (Ident (TokPos tok) (Lit tok)) lx1)"

text \<open>
  \<open>parseNumberLiteral\<close>: a literal of digits only is an integer, any other a float; the
  errors of \<open>strconv\<close> are dropped. The literal of a number token is ASCII, so its bytes
  are its runes.
\<close>

definition parseNumberLiteral :: "golib \<Rightarrow> Lexer \<Rightarrow> Expr presult" where
  "parseNumberLiteral L lx =
     thenP (p_match L token_NumberLiteral lx) (\<lambda>tok lx1.
       if list_all (\<lambda>ch. IsDigit L (of_char ch)) (Lit tok)
       then Ok (IntegerLiteral (TokPos tok) (fst (ParseInt L (Lit tok)))) lx1
       else Ok (NumberLiteral (TokPos tok) (fst (ParseFloat L (Lit tok)))) lx1)"

text \<open>
  The expression parser: \<open>parseBinaryExpr\<close> with its loop, \<open>parseUnaryExpr\<close>,
  \<open>parseSelectExprList\<close> with its loop, and \<open>parseExprOrStar\<close>. \<open>parseExpr\<close> is
  \<open>parseBinaryExpr\<close> at precedence 1.
\<close>

fun parseBinaryExpr :: "nat \<Rightarrow> golib \<Rightarrow> int \<Rightarrow> Lexer \<Rightarrow> Expr presult"
  and binaryLoop :: "nat \<Rightarrow> golib \<Rightarrow> int \<Rightarrow> Expr \<Rightarrow> Lexer \<Rightarrow> Expr presult"
  and parseUnaryExpr :: "nat \<Rightarrow> golib \<Rightarrow> Lexer \<Rightarrow> Expr presult"
  and parseSelectExprList :: "nat \<Rightarrow> golib \<Rightarrow> Lexer \<Rightarrow> Expr list presult"
  and selectExprListLoop :: "nat \<Rightarrow> golib \<Rightarrow> Expr list \<Rightarrow> Lexer \<Rightarrow> Expr list presult"
  and parseExprOrStar :: "nat \<Rightarrow> golib \<Rightarrow> Lexer \<Rightarrow> Expr presult"
where
  "parseBinaryExpr 0 L minPrec lx = OutOfFuel"
| "parseBinaryExpr (Suc fuel) L minPrec lx =
     thenP (parseUnaryExpr fuel L lx) (\<lambda>expr lx1. binaryLoop fuel L minPrec expr lx1)"
| "binaryLoop 0 L minPrec expr lx = OutOfFuel"
| "binaryLoop (Suc fuel) L minPrec expr lx =
     (if Precedence (p_kind lx) < minPrec then Ok expr lx
      else thenP (p_skip L (p_kind lx) lx) (\<lambda>_ lx1.
           thenP (parseBinaryExpr fuel L (Precedence (p_kind lx) + 1) lx1) (\<lambda>rhs lx2.
           binaryLoop fuel L minPrec (BinaryExpr expr (p_kind lx) rhs) lx2)))"
| "parseUnaryExpr 0 L lx = OutOfFuel"
| "parseUnaryExpr (Suc fuel) L lx =
     (if p_kind lx = token_LeftParen then
        thenP (p_skip L token_LeftParen lx) (\<lambda>_ lx1.
        thenP (parseBinaryExpr fuel L 1 lx1) (\<lambda>e lx2.
        thenP (p_match L token_RightParen lx2) (\<lambda>_ lx3. Ok e lx3)))
      else if p_kind lx = token_Ident then
        thenP (p_next L lx) (\<lambda>tok lx1.
          if p_kind lx1 = token_LeftParen then
            thenP (p_skip L token_LeftParen lx1) (\<lambda>_ lx2.
            thenP (parseSelectExprList fuel L lx2) (\<lambda>funcArgs lx3.
            thenP (p_match L token_RightParen lx3) (\<lambda>_ lx4.
            Ok (FunctionCall (Ident (TokPos tok) (Lit tok)) funcArgs) lx4)))
          else Ok (IdentExpr (Ident (TokPos tok) (Lit tok))) lx1)
      else if p_kind lx = token_Plus \<or> p_kind lx = token_Minus then
        thenP (p_next L lx) (\<lambda>tok lx1.
        thenP (parseBinaryExpr fuel L 1 lx1) (\<lambda>e lx2. Ok (UnaryExpr (TokPos tok) (Kind tok) e) lx2))
      else if p_kind lx = token_NumberLiteral then parseNumberLiteral L lx
      else if p_kind lx = token_StringLiteral then
        thenP (p_next L lx) (\<lambda>tok lx1. Ok (StringLiteral (TokPos tok) (Lit tok)) lx1)
      else if p_kind lx = token_True then
        thenP (p_next L lx) (\<lambda>tok lx1. Ok (BooleanLiteral (TokPos tok) True) lx1)
      else if p_kind lx = token_False then
        thenP (p_next L lx) (\<lambda>tok lx1. Ok (BooleanLiteral (TokPos tok) False) lx1)
      else if p_kind lx = token_Null then
        thenP (p_next L lx) (\<lambda>tok lx1. Ok (Null (TokPos tok)) lx1)
      else Panic (expected lx [token_LeftParen, token_Ident, token_Null, token_NumberLiteral,
                                token_StringLiteral]))"
| "parseSelectExprList 0 L lx = OutOfFuel"
| "parseSelectExprList (Suc fuel) L lx =
     thenP (parseExprOrStar fuel L lx) (\<lambda>e lx1. selectExprListLoop fuel L [e] lx1)"
| "selectExprListLoop 0 L exprs lx = OutOfFuel"
| "selectExprListLoop (Suc fuel) L exprs lx =
     (if p_kind lx = token_Comma then
        thenP (p_skip L token_Comma lx) (\<lambda>_ lx1.
        thenP (parseExprOrStar fuel L lx1) (\<lambda>e lx2.
        selectExprListLoop fuel L (exprs @ [e]) lx2))
      else Ok exprs lx)"
| "parseExprOrStar 0 L lx = OutOfFuel"
| "parseExprOrStar (Suc fuel) L lx =
     (if p_kind lx = token_Mul then
        thenP (p_skip L token_Mul lx) (\<lambda>_ lx1. Ok (SelectStarExpr zeroPos) lx1)
      else parseBinaryExpr fuel L 1 lx)"

definition parseExpr :: "nat \<Rightarrow> golib \<Rightarrow> Lexer \<Rightarrow> Expr presult" where
  "parseExpr fuel L lx = parseBinaryExpr fuel L 1 lx"

text \<open>\<open>parseExprList\<close>: an expression, and one more after each comma.\<close>

fun exprListLoop :: "nat \<Rightarrow> golib \<Rightarrow> Expr list \<Rightarrow> Lexer \<Rightarrow> Expr list presult" where
  "exprListLoop 0 L exprs lx = OutOfFuel"
| "exprListLoop (Suc fuel) L exprs lx =
     (if p_kind lx = token_Comma then
        thenP (p_skip L token_Comma lx) (\<lambda>_ lx1.
        thenP (parseExpr fuel L lx1) (\<lambda>e lx2.
        exprListLoop fuel L (exprs @ [e]) lx2))
      else Ok exprs lx)"

definition parseExprList :: "nat \<Rightarrow> golib \<Rightarrow> Lexer \<Rightarrow> Expr list presult" where
  "parseExprList fuel L lx = thenP (parseExpr fuel L lx) (\<lambda>e lx1. exprListLoop fuel L [e] lx1)"

text \<open>The optional WHERE clause of SELECT, UPDATE and DELETE.\<close>

definition parseWhere :: "nat \<Rightarrow> golib \<Rightarrow> Lexer \<Rightarrow> Expr option presult" where
  "parseWhere fuel L lx =
     (if p_kind lx = token_Where then
        thenP (p_skip L token_Where lx) (\<lambda>_ lx1.
        thenP (parseExpr fuel L lx1) (\<lambda>e lx2. Ok (Some e) lx2))
      else Ok None lx)"

text \<open>The loop of \<open>parseColumnDefinitions\<close>: one column definition a turn.\<close>

fun columnDefinitionsLoop :: "nat \<Rightarrow> golib \<Rightarrow> ColumnDefinition list \<Rightarrow> Lexer \<Rightarrow> ColumnDefinition list presult" where
  "columnDefinitionsLoop 0 L columns lx = OutOfFuel"
| "columnDefinitionsLoop (Suc fuel) L columns lx =
     thenP (parseIdent L lx) (\<lambda>name lx1.
     thenP (if p_kind lx1 = token_Boolean \<or> p_kind lx1 = token_Integer \<or> p_kind lx1 = token_Number
               \<or> p_kind lx1 = token_Varchar \<or> p_kind lx1 = token_Timestamp
            then thenP (p_next L lx1) (\<lambda>tok lx2. Ok (Kind tok) lx2)
            else Panic (expected lx1 [token_Boolean, token_Integer, token_Number, token_Varchar,
                                      token_Timestamp])) (\<lambda>dataType lx2.
     thenP (if p_kind lx2 = token_Not then
              thenP (p_skip L token_Not lx2) (\<lambda>_ lx3.
              thenP (p_match L token_Null lx3) (\<lambda>_ lx4. Ok False lx4))
            else if p_kind lx2 = token_Null then
              thenP (p_skip L token_Null lx2) (\<lambda>_ lx3. Ok True lx3)
            else Ok True lx2) (\<lambda>nullable lx3.
     if p_kind lx3 \<noteq> token_Comma then Ok (columns @ [ColumnDefinition name dataType nullable]) lx3
     else thenP (p_skip L token_Comma lx3) (\<lambda>_ lx4.
          columnDefinitionsLoop fuel L (columns @ [ColumnDefinition name dataType nullable]) lx4))))"

definition parseColumnDefinitions :: "nat \<Rightarrow> golib \<Rightarrow> Lexer \<Rightarrow> ColumnDefinition list presult" where
  "parseColumnDefinitions fuel L lx =
     thenP (p_match L token_LeftParen lx) (\<lambda>_ lx1.
     thenP (columnDefinitionsLoop fuel L [] lx1) (\<lambda>columns lx2.
     thenP (p_match L token_RightParen lx2) (\<lambda>_ lx3. Ok columns lx3)))"

definition parseCreateTableStmt :: "nat \<Rightarrow> golib \<Rightarrow> Lexer \<Rightarrow> Node presult" where
  "parseCreateTableStmt fuel L lx =
     thenP (p_match L token_Create lx) (\<lambda>start lx1.
     thenP (p_match L token_Table lx1) (\<lambda>_ lx2.
     thenP (parseIdent L lx2) (\<lambda>table lx3.
     thenP (parseColumnDefinitions fuel L lx3) (\<lambda>columns lx4.
     Ok (CreateTableStmt (TokPos start) table columns) lx4))))"

definition parseSelectStmt :: "nat \<Rightarrow> golib \<Rightarrow> Lexer \<Rightarrow> Node presult" where
  "parseSelectStmt fuel L lx =
     thenP (p_match L token_Select lx) (\<lambda>start lx1.
     thenP (parseSelectExprList fuel L lx1) (\<lambda>columns lx2.
     thenP (p_match L token_From lx2) (\<lambda>_ lx3.
     thenP (parseIdent L lx3) (\<lambda>table lx4.
     thenP (parseWhere fuel L lx4) (\<lambda>wh lx5.
     Ok (SelectStmt (TokPos start) columns (IdentExpr table) wh) lx5)))))"

text \<open>The loop over the column names of INSERT: one more after each comma.\<close>

fun identListLoop :: "nat \<Rightarrow> golib \<Rightarrow> Ident list \<Rightarrow> Lexer \<Rightarrow> Ident list presult" where
  "identListLoop 0 L columns lx = OutOfFuel"
| "identListLoop (Suc fuel) L columns lx =
     (if p_kind lx = token_Comma then
        thenP (p_skip L token_Comma lx) (\<lambda>_ lx1.
        thenP (parseIdent L lx1) (\<lambda>name lx2.
        identListLoop fuel L (columns @ [name]) lx2))
      else Ok columns lx)"

definition parseInsertStmt :: "nat \<Rightarrow> golib \<Rightarrow> Lexer \<Rightarrow> Node presult" where
  "parseInsertStmt fuel L lx =
     thenP (p_match L token_Insert lx) (\<lambda>start lx1.
     thenP (p_match L token_Into lx1) (\<lambda>_ lx2.
     thenP (parseIdent L lx2) (\<lambda>table lx3.
     thenP (if p_kind lx3 = token_LeftParen then
              thenP (p_skip L token_LeftParen lx3) (\<lambda>_ lx4.
              thenP (parseIdent L lx4) (\<lambda>name lx5.
              thenP (identListLoop fuel L [name] lx5) (\<lambda>columns lx6.
              thenP (p_match L token_RightParen lx6) (\<lambda>_ lx7. Ok columns lx7))))
            else Ok [] lx3) (\<lambda>columns lx4.
     thenP (p_match L token_Values lx4) (\<lambda>_ lx5.
     thenP (p_match L token_LeftParen lx5) (\<lambda>_ lx6.
     thenP (parseExprList fuel L lx6) (\<lambda>vals lx7.
     thenP (p_match L token_RightParen lx7) (\<lambda>_ lx8.
     Ok (InsertStmt (TokPos start) table columns vals) lx8))))))))"

text \<open>The loop over the assignments of UPDATE: one more after each comma.\<close>

fun assignmentsLoop :: "nat \<Rightarrow> golib \<Rightarrow> Ident list \<times> Expr list \<Rightarrow> Lexer \<Rightarrow> (Ident list \<times> Expr list) presult" where
  "assignmentsLoop 0 L cv lx = OutOfFuel"
| "assignmentsLoop (Suc fuel) L cv lx =
     (if p_kind lx = token_Comma then
        thenP (p_skip L token_Comma lx) (\<lambda>_ lx1.
        thenP (parseIdent L lx1) (\<lambda>name lx2.
        thenP (p_match L token_Equal lx2) (\<lambda>_ lx3.
        thenP (parseExpr fuel L lx3) (\<lambda>e lx4.
        assignmentsLoop fuel L (fst cv @ [name], snd cv @ [e]) lx4))))
      else Ok cv lx)"

definition parseUpdateStmt :: "nat \<Rightarrow> golib \<Rightarrow> Lexer \<Rightarrow> Node presult" where
  "parseUpdateStmt fuel L lx =
     thenP (p_match L token_Update lx) (\<lambda>start lx1.
     thenP (parseIdent L lx1) (\<lambda>table lx2.
     thenP (p_match L token_Set lx2) (\<lambda>_ lx3.
     thenP (if p_kind lx3 = token_LeftParen
            then thenP (p_skip L token_LeftParen lx3) (\<lambda>_ lx4. Ok True lx4)
            else Ok False lx3) (\<lambda>closeParen lx4.
     thenP (parseIdent L lx4) (\<lambda>name lx5.
     thenP (p_match L token_Equal lx5) (\<lambda>_ lx6.
     thenP (parseExpr fuel L lx6) (\<lambda>e lx7.
     thenP (assignmentsLoop fuel L ([name], [e]) lx7) (\<lambda>cv lx8.
     thenP (if closeParen then thenP (p_match L token_RightParen lx8) (\<lambda>_ lx9. Ok () lx9)
            else Ok () lx8) (\<lambda>_ lx9.
     thenP (parseWhere fuel L lx9) (\<lambda>wh lx10.
     Ok (UpdateStmt (TokPos start) table (fst cv) (snd cv) wh) lx10))))))))))"

definition parseDeleteStmt :: "nat \<Rightarrow> golib \<Rightarrow> Lexer \<Rightarrow> Node presult" where
  "parseDeleteStmt fuel L lx =
     thenP (p_match L token_Delete lx) (\<lambda>start lx1.
     thenP (p_match L token_From lx1) (\<lambda>_ lx2.
     thenP (parseIdent L lx2) (\<lambda>table lx3.
     thenP (parseWhere fuel L lx3) (\<lambda>wh lx4.
     Ok (DeleteStmt (TokPos start) table wh) lx4))))"

definition parseStmt :: "nat \<Rightarrow> golib \<Rightarrow> Lexer \<Rightarrow> Node presult" where
  "parseStmt fuel L lx =
     (if p_kind lx = token_Create then parseCreateTableStmt fuel L lx
      else if p_kind lx = token_Select then parseSelectStmt fuel L lx
      else if p_kind lx = token_Insert then parseInsertStmt fuel L lx
      else if p_kind lx = token_Update then parseUpdateStmt fuel L lx
      else if p_kind lx = token_Delete then parseDeleteStmt fuel L lx
      else Panic (expected lx [token_Select, token_Insert, token_Update, token_Delete]))"

text \<open>\<open>parseStmtList\<close>: statements, each followed by a semicolon, up to the end of the input.\<close>

fun stmtListLoop :: "nat \<Rightarrow> golib \<Rightarrow> Node list \<Rightarrow> Lexer \<Rightarrow> Node list presult" where
  "stmtListLoop 0 L stmts lx = OutOfFuel"
| "stmtListLoop (Suc fuel) L stmts lx =
     (if p_kind lx \<noteq> token_Invalid then
        thenP (parseStmt fuel L lx) (\<lambda>stmt lx1.
        thenP (p_match L token_Semicolon lx1) (\<lambda>_ lx2.
        stmtListLoop fuel L (stmts @ [stmt]) lx2))
      else Ok stmts lx)"

definition parseStmtList :: "nat \<Rightarrow> golib \<Rightarrow> Lexer \<Rightarrow> Node list presult" where
  "parseStmtList fuel L lx = stmtListLoop fuel L [] lx"

text \<open>
  \<open>Parse\<close>. Its deferred function returns a recovered error value as the error, and
  panics again with any other recovered value. With too little fuel the model has no
  answer: \<open>None\<close>.
\<close>

definition recoverParse :: "panicval \<Rightarrow> (Node list \<times> panicval option) outcome" where
  "recoverParse r = (if isError r then Returns ([], Some r) else Panics r)"

definition Parse :: "nat \<Rightarrow> golib \<Rightarrow> Lexer \<Rightarrow> (Node list \<times> panicval option) outcome option" where
  "Parse fuel L lx =
     (case Scan L lx of
        Inl r \<Rightarrow> Some (recoverParse r)
      | Inr (False, lx1) \<Rightarrow> Some (Returns ([], None))
      | Inr (True, lx1) \<Rightarrow>
          (case lex_err lx1 of
             Some err \<Rightarrow> Some (Returns ([], Some err))
           | None \<Rightarrow>
               (case parseStmtList fuel L lx1 of
                  OutOfFuel \<Rightarrow> None
                | Panic r \<Rightarrow> Some (recoverParse r)
                | Ok stmts _ \<Rightarrow> Some (Returns (stmts, None)))))"

subsection \<open>Definitions for stating the properties\<close>

text \<open>
  The SET loop as the specification describes it: every right-hand side is evaluated
  against the row's original values \<open>row0\<close>, whatever the earlier assignments wrote.
\<close>

fun applySet_preupdate :: "golib \<Rightarrow> Table \<Rightarrow> Row \<Rightarrow> Ident list \<Rightarrow> Expr list \<Rightarrow> Row \<Rightarrow> Row \<times> (panicval + unit)" where
  "applySet_preupdate L table row0 [] vals row = (row, Inr ())"
| "applySet_preupdate L table row0 (name # names) vals row =
     (let n = colIndex table (IdentName name) in
      if n < 0 then
        (row, Inl (errorf (NamePos name) ''column %q of relation %q does not exist''
           [ArgString (IdentName name), ArgString (TableName table)]))
      else case vals of
        [] \<Rightarrow> (row, Inl indexOutOfRange)
      | val # vals' \<Rightarrow>
          (case evalExpr L [] (currentRow table row0) val of
             Inl e \<Rightarrow> (row, Inl e)
           | Inr v \<Rightarrow>
               if nat n < length row then applySet_preupdate L table row0 names vals' (row[nat n := v])
               else (row, Inl indexOutOfRange)))"

text \<open>
  One assignment \<open>name = val\<close> of a SET clause, from the row \<open>row\<close> to the row
  \<open>row'\<close>: the right-hand side is evaluated against \<open>row\<close>, the column exists, and
  \<open>row'\<close> is \<open>row\<close> with the value written at the column's index.
\<close>

definition assignmentStep :: "golib \<Rightarrow> Table \<Rightarrow> Ident \<Rightarrow> Expr \<Rightarrow> Row \<Rightarrow> Row \<Rightarrow> bool" where
  "assignmentStep L table name val row row' =
     (case evalExpr L [] (currentRow table row) val of
        Inl e \<Rightarrow> False
      | Inr v \<Rightarrow> 0 \<le> colIndex table (IdentName name)
          \<and> nat (colIndex table (IdentName name)) < length row
          \<and> row' = row[nat (colIndex table (IdentName name)) := v])"

text \<open>The row that the SET loop of the source has made of \<open>row\<close> after its first \<open>k\<close> assignments.\<close>

definition rowAfter :: "golib \<Rightarrow> Table \<Rightarrow> Ident list \<Rightarrow> Expr list \<Rightarrow> nat \<Rightarrow> Row \<Rightarrow> Row" where
  "rowAfter L table names vals k row = fst (applySet L table (take k names) (take k vals) row)"

text \<open>The data type of which a value is a variant.\<close>

fun dataTypeOf :: "Value \<Rightarrow> DataType" where
  "dataTypeOf (BooleanValue _) = eval_Boolean"
| "dataTypeOf (IntegerValue _) = eval_Integer"
| "dataTypeOf (NumberValue _) = eval_Number"
| "dataTypeOf (StringValue _) = eval_String"
| "dataTypeOf (TimestampValue _) = eval_Timestamp"

text \<open>
  The conversions between the variants (the casts of eval/value.go), written out as
  one table over the declared type and the variant of the value: the value of the type \<open>t\<close> that \<open>v\<close> is converted to, none
  where there is no conversion or it fails. A value of the declared type is kept; an
  Integer becomes the Number \<open>float64(n)\<close>, a Number the Integer \<open>int64(x)\<close>; a String
  is parsed as an Integer, a Number or a Timestamp; an Integer, a Number and a Timestamp
  are formatted as a String; nothing else is converted, a Boolean to or from nothing.
\<close>

fun converted :: "golib \<Rightarrow> DataType \<Rightarrow> Value \<Rightarrow> Value option" where
  "converted L eval_Boolean (BooleanValue b) = Some (BooleanValue b)"
| "converted L eval_Integer (IntegerValue n) = Some (IntegerValue n)"
| "converted L eval_Integer (NumberValue x) = Some (IntegerValue (f_to_int64 L x))"
| "converted L eval_Integer (StringValue s) =
     (if snd (ParseInt L s) then Some (IntegerValue (fst (ParseInt L s))) else None)"
| "converted L eval_Number (IntegerValue n) = Some (NumberValue (f_of_int64 n))"
| "converted L eval_Number (NumberValue x) = Some (NumberValue x)"
| "converted L eval_Number (StringValue s) =
     (if snd (ParseFloat L s) then Some (NumberValue (fst (ParseFloat L s))) else None)"
| "converted L eval_String (IntegerValue n) = Some (StringValue (FormatInt L n))"
| "converted L eval_String (NumberValue x) = Some (StringValue (FormatFloat L x))"
| "converted L eval_String (StringValue s) = Some (StringValue s)"
| "converted L eval_String (TimestampValue t) = Some (StringValue (TimeFormat L t))"
| "converted L eval_Timestamp (StringValue s) =
     (case List.find (\<lambda>layout. TimeParse L layout s \<noteq> None) timeLayouts of
        Some layout \<Rightarrow> map_option TimestampValue (TimeParse L layout s)
      | None \<Rightarrow> None)"
| "converted L eval_Timestamp (TimestampValue t) = Some (TimestampValue t)"
| "converted L _ _ = None"

text \<open>
  The round trip of the specification. The cell that an INSERT stores for a value: the
  value converted to the column's declared data type, a null where the column allows it,
  and none when the conversion fails or a null is not allowed. The row that an INSERT of
  the expressions \<open>vals\<close>, given in table order, stores: none when an expression, a
  conversion or a constraint fails or the number of values is not the number of columns.
\<close>

definition storedCell :: "golib \<Rightarrow> Column \<Rightarrow> Value option \<Rightarrow> Value option option" where
  "storedCell L col value =
     (case value of
        Some v \<Rightarrow> map_option Some (converted L (Type col) v)
      | None \<Rightarrow> if Nullable col then Some None else None)"

definition coercedRow :: "golib \<Rightarrow> Column list \<Rightarrow> Row \<Rightarrow> Row option" where
  "coercedRow L columns values =
     (if length values = length columns
         \<and> list_all (\<lambda>(col, v). storedCell L col v \<noteq> None) (zip columns values)
      then Some (map (\<lambda>(col, v). the (storedCell L col v)) (zip columns values))
      else None)"

definition insertedRow :: "golib \<Rightarrow> Column list \<Rightarrow> Expr list \<Rightarrow> Row option" where
  "insertedRow L columns vals =
     (case evalExprs L [] emptyNamespace vals of
        Inl _ \<Rightarrow> None
      | Inr values \<Rightarrow> coercedRow L columns values)"

text \<open>
  An INSERT into the table \<open>name\<close> that supplies all columns in table order: with no
  column list, or with the list of all the columns of the definitions \<open>defs\<close>.
\<close>

fun insertInOrder :: "string \<Rightarrow> ColumnDefinition list \<Rightarrow> Node \<Rightarrow> bool" where
  "insertInOrder name defs (InsertStmt q tab cols vals) =
     (IdentName tab = name \<and>
      (cols = [] \<or> map IdentName cols = map (\<lambda>d. IdentName (DefName d)) defs))"
| "insertInOrder name defs _ = False"

fun insertedRowOf :: "golib \<Rightarrow> Column list \<Rightarrow> Node \<Rightarrow> Row list" where
  "insertedRowOf L columns (InsertStmt q tab cols vals) =
     (case insertedRow L columns vals of Some row \<Rightarrow> [row] | None \<Rightarrow> [])"
| "insertedRowOf L columns _ = []"

subsection \<open>A small database for running the model\<close>

text \<open>\<open>CREATE TABLE t (a INTEGER NOT NULL, b VARCHAR)\<close> with the rows \<open>(1, 'x')\<close> and \<open>(2, 'y')\<close>.\<close>

definition example_columns :: "Column list" where
  "example_columns =
     [zeroColumn\<lparr>Name := ''a'', Type := eval_Integer, Nullable := False\<rparr>,
      zeroColumn\<lparr>Name := ''b'', Type := eval_String, Nullable := True\<rparr>]"

definition example_table :: Table where
  "example_table = \<lparr>TableName = ''t'', Columns = example_columns,
     Data = [[Some (IntegerValue 1), Some (StringValue ''x'')],
             [Some (IntegerValue 2), Some (StringValue ''y'')]]\<rparr>"

definition example_env :: Environment where
  "example_env = \<lparr>tables = [''t'' \<mapsto> example_table]\<rparr>"

text \<open>An identifier node at the zero position.\<close>

definition ident :: "string \<Rightarrow> Ident" where
  "ident name = Ident zeroPos name"

text \<open>\<open>CREATE TABLE u (c NUMBER)\<close> with the rows \<open>(1.5)\<close> and \<open>(2.5)\<close>.\<close>

definition numbers_table :: Table where
  "numbers_table = \<lparr>TableName = ''u'',
     Columns = [zeroColumn\<lparr>Name := ''c'', Type := eval_Number, Nullable := True\<rparr>],
     Data = [[Some (NumberValue 0x3FF8000000000000)], [Some (NumberValue 0x4004000000000000)]]\<rparr>"

definition numbers_env :: Environment where
  "numbers_env = \<lparr>tables = [''u'' \<mapsto> numbers_table]\<rparr>"

text \<open>
  The statements of a round trip: \<open>CREATE TABLE r (n NUMBER NOT NULL, s VARCHAR)\<close>,
  \<open>INSERT INTO r VALUES (1, 'x')\<close>, \<open>INSERT INTO r VALUES (NULL, 'z')\<close>,
  \<open>INSERT INTO r (n, s) VALUES (2.5, 7)\<close> and \<open>INSERT INTO r VALUES (TRUE, 'q')\<close>.
\<close>

definition roundtrip_definitions :: "ColumnDefinition list" where
  "roundtrip_definitions =
     [ColumnDefinition (ident ''n'') token_Number False,
      ColumnDefinition (ident ''s'') token_Varchar True]"

definition roundtrip_inserts :: "Node list" where
  "roundtrip_inserts =
     [InsertStmt zeroPos (ident ''r'') [] [IntegerLiteral zeroPos 1, StringLiteral zeroPos ''x''],
      InsertStmt zeroPos (ident ''r'') [] [Null zeroPos, StringLiteral zeroPos ''z''],
      InsertStmt zeroPos (ident ''r'') [ident ''n'', ident ''s'']
        [NumberLiteral zeroPos 0x4004000000000000, IntegerLiteral zeroPos 7],
      InsertStmt zeroPos (ident ''r'') [] [BooleanLiteral zeroPos True, StringLiteral zeroPos ''q'']]"

definition empty_env :: Environment where
  "empty_env = \<lparr>tables = Map.empty\<rparr>"

subsection \<open>Measures for the parser's progress\<close>

text \<open>
  The runes that a lexer has left, and the work that a parser has left on it: twice the
  runes, and one more while the current token is not the end of the input.
\<close>

definition remaining :: "Lexer \<Rightarrow> nat" where
  "remaining lx = length (lex_input lx) - lex_pos lx"

definition work :: "Lexer \<Rightarrow> nat" where
  "work lx = (if p_kind lx = token_Invalid then 0 else 1) + 2 * remaining lx"

text \<open>
  A parsing function answers, and, if it returns, leaves a lexer without error and with
  no more work (\<open>le_prog\<close>), or with less work (\<open>lt_prog\<close>), than the lexer \<open>lx\<close>.
\<close>

definition le_prog :: "'a presult \<Rightarrow> Lexer \<Rightarrow> bool" where
  "le_prog r lx =
     (case r of OutOfFuel \<Rightarrow> False | Panic _ \<Rightarrow> True
      | Ok _ lx' \<Rightarrow> lex_err lx' = None \<and> work lx' \<le> work lx)"

definition lt_prog :: "'a presult \<Rightarrow> Lexer \<Rightarrow> bool" where
  "lt_prog r lx =
     (case r of OutOfFuel \<Rightarrow> False | Panic _ \<Rightarrow> True
      | Ok _ lx' \<Rightarrow> lex_err lx' = None \<and> work lx' < work lx)"




section \<open>Properties\<close>

lemmas example_defs = example_env_def example_table_def example_columns_def ident_def
  zeroColumn_def colIndex_def lookupTable_def

subsection \<open>DELETE\<close>

lemma deleteRows_None: "deleteRows L table None rows = Inr []"
  by (induction rows) simp_all

lemma deleteRows_Some:
  "\<forall>row\<in>set rows. \<exists>b. whereMatches L (currentRow table row) (Some w) = Inr b \<Longrightarrow>
   deleteRows L table (Some w) rows =
     Inr (filter (\<lambda>row. whereMatches L (currentRow table row) (Some w) = Inr False) rows)"
proof (induction rows)
  case Nil
  then show ?case by simp
next
  case (Cons row rows)
  then obtain b where b: "whereMatches L (currentRow table row) (Some w) = Inr b" by auto
  from Cons have "deleteRows L table (Some w) rows =
     Inr (filter (\<lambda>row. whereMatches L (currentRow table row) (Some w) = Inr False) rows)" by simp
  with b show ?case by (cases b) (simp_all del: whereMatches.simps)
qed

lemma deleteRows_panics:
  "\<not> (\<forall>row\<in>set rows. \<exists>b. whereMatches L (currentRow table row) (Some w) = Inr b) \<Longrightarrow>
   \<exists>e. deleteRows L table (Some w) rows = Inl e"
proof (induction rows)
  case Nil
  then show ?case by simp
next
  case (Cons row rows)
  show ?case
  proof (cases "whereMatches L (currentRow table row) (Some w)")
    case (Inl e)
    then show ?thesis by (simp del: whereMatches.simps)
  next
    case (Inr b)
    with Cons.prems have "\<not> (\<forall>row\<in>set rows. \<exists>b. whereMatches L (currentRow table row) (Some w) = Inr b)"
      by auto
    from Cons.IH[OF this] obtain e where "deleteRows L table (Some w) rows = Inl e" ..
    with Inr show ?thesis by (simp del: whereMatches.simps)
  qed
qed

text \<open>
  C1 (as the code has it). A DELETE on a table of the environment:
  \<^item> without a WHERE clause it empties the table: every row is deleted;
  \<^item> with a WHERE clause that evaluates to a boolean on every row, the table keeps
    exactly the rows on which the clause is false, in their order;
  \<^item> with a WHERE clause that panics or is not a boolean (null included) on some row,
    the statement fails and the environment is unchanged.
\<close>

theorem delete_keeps_false_rows:
  assumes "tables env (IdentName tab) = Some table"
  shows "evalDeleteStmt L env tab None =
           (env\<lparr>tables := (tables env)(IdentName tab \<mapsto> table\<lparr>Data := []\<rparr>)\<rparr>, Inr ())
       \<and> ((\<forall>row\<in>set (Data table). \<exists>b. whereMatches L (currentRow table row) (Some w) = Inr b) \<longrightarrow>
           evalDeleteStmt L env tab (Some w) =
             (env\<lparr>tables := (tables env)(IdentName tab \<mapsto> table\<lparr>Data :=
                filter (\<lambda>row. whereMatches L (currentRow table row) (Some w) = Inr False) (Data table)\<rparr>)\<rparr>,
              Inr ()))
       \<and> (\<not> (\<forall>row\<in>set (Data table). \<exists>b. whereMatches L (currentRow table row) (Some w) = Inr b) \<longrightarrow>
           (\<exists>e. evalDeleteStmt L env tab (Some w) = (env, Inl e)))"
proof (intro conjI impI)
  show "evalDeleteStmt L env tab None =
           (env\<lparr>tables := (tables env)(IdentName tab \<mapsto> table\<lparr>Data := []\<rparr>)\<rparr>, Inr ())"
    using assms by (simp add: evalDeleteStmt_def lookupTable_def deleteRows_None)
next
  assume "\<forall>row\<in>set (Data table). \<exists>b. whereMatches L (currentRow table row) (Some w) = Inr b"
  from deleteRows_Some[OF this] assms
  show "evalDeleteStmt L env tab (Some w) =
             (env\<lparr>tables := (tables env)(IdentName tab \<mapsto> table\<lparr>Data :=
                filter (\<lambda>row. whereMatches L (currentRow table row) (Some w) = Inr False) (Data table)\<rparr>)\<rparr>,
              Inr ())"
    by (simp add: evalDeleteStmt_def lookupTable_def)
next
  assume "\<not> (\<forall>row\<in>set (Data table). \<exists>b. whereMatches L (currentRow table row) (Some w) = Inr b)"
  from deleteRows_panics[OF this] obtain e where "deleteRows L table (Some w) (Data table) = Inl e" ..
  with assms show "\<exists>e. evalDeleteStmt L env tab (Some w) = (env, Inl e)"
    by (simp add: evalDeleteStmt_def lookupTable_def)
qed

text \<open>
  Witness for C1: \<open>DELETE FROM t WHERE a = 1\<close> on the example table keeps the row
  \<open>(2, 'y')\<close>, whatever the library does.
\<close>

theorem delete_keeps_false_rows_witness:
  "\<forall>L. evalDeleteStmt L example_env (ident ''t'')
          (Some (BinaryExpr (IdentExpr (ident ''a'')) token_Equal (IntegerLiteral zeroPos 1))) =
        (\<lparr>tables = [''t'' \<mapsto> example_table\<lparr>Data := [[Some (IntegerValue 2), Some (StringValue ''y'')]]\<rparr>]\<rparr>,
         Inr ())"
proof
  fix L
  let ?w = "BinaryExpr (IdentExpr (ident ''a'')) token_Equal (IntegerLiteral zeroPos 1)"
  have t: "tables example_env (IdentName (ident ''t'')) = Some example_table"
    by (simp add: example_defs)
  have m1: "whereMatches L (currentRow example_table [Some (IntegerValue 1), Some (StringValue ''x'')]) (Some ?w) = Inr True"
    by (simp add: example_defs binaryOp_def cmpInts_def mapInr_def valueToBoolean_def)
  have m2: "whereMatches L (currentRow example_table [Some (IntegerValue 2), Some (StringValue ''y'')]) (Some ?w) = Inr False"
    by (simp add: example_defs binaryOp_def cmpInts_def mapInr_def valueToBoolean_def)
  have h: "\<forall>row\<in>set (Data example_table). \<exists>b. whereMatches L (currentRow example_table row) (Some ?w) = Inr b"
    using m1 m2 by (auto simp: example_table_def simp del: whereMatches.simps)
  from delete_keeps_false_rows[OF t, of L ?w] h
  have "evalDeleteStmt L example_env (ident ''t'') (Some ?w) =
          (example_env\<lparr>tables := (tables example_env)(IdentName (ident ''t'') \<mapsto> example_table\<lparr>Data :=
                filter (\<lambda>row. whereMatches L (currentRow example_table row) (Some ?w) = Inr False) (Data example_table)\<rparr>)\<rparr>,
              Inr ())"
    by blast
  moreover have "filter (\<lambda>row. whereMatches L (currentRow example_table row) (Some ?w) = Inr False) (Data example_table)
      = [[Some (IntegerValue 2), Some (StringValue ''y'')]]"
    using m1 m2 by (simp add: example_table_def del: whereMatches.simps)
  ultimately show "evalDeleteStmt L example_env (ident ''t'') (Some ?w) =
        (\<lparr>tables = [''t'' \<mapsto> example_table\<lparr>Data := [[Some (IntegerValue 2), Some (StringValue ''y'')]]\<rparr>]\<rparr>,
         Inr ())"
    by (simp add: example_env_def ident_def)
qed

text \<open>
  Counterexample to C1 as stated: \<open>DELETE FROM t\<close>, with no WHERE clause, leaves the
  example table with no row, though it had two.
\<close>

theorem delete_without_where_counterexample:
  "\<forall>L. evalDeleteStmt L example_env (ident ''t'') None =
          (\<lparr>tables = [''t'' \<mapsto> example_table\<lparr>Data := []\<rparr>]\<rparr>, Inr ())
      \<and> Data example_table \<noteq> []"
  by (simp add: evalDeleteStmt_def example_defs)

subsection \<open>INSERT\<close>

lemma coerceRow_length: "coerceRow L cols row = Inr row' \<Longrightarrow> length row' = length row"
  by (induction L cols row arbitrary: row' rule: coerceRow.induct)
     (auto split: sum.splits option.splits if_splits)

lemma place_length:
  "place names values cols = (row, cols') \<Longrightarrow> length row = length cols \<and> length cols' = length cols"
  by (induction cols arbitrary: row cols') (auto split: prod.splits option.splits if_splits)

lemma copyInto_length: "length (copyInto n values) = n"
  by (simp add: copyInto_def)

text \<open>
  C10. \<open>Table.insert\<close> is atomic on the rows: when it panics (wrong number of values, an
  unknown column name, a null in a non-nullable column, a failed coercion) the table's
  rows are those before the call; when it returns, exactly one row, as long as the
  table has columns, has been appended.
\<close>

theorem insert_failure_keeps_rows:
  assumes "insert_row L tab names values = (tab', r)"
  shows "case r of
           Inl e \<Rightarrow> Data tab' = Data tab
         | Inr _ \<Rightarrow> \<exists>row. length row = length (Columns tab) \<and> Data tab' = Data tab @ [row]"
  using assms
  by (auto simp: insert_row_def Let_def copyInto_length
           split: if_splits option.splits prod.splits sum.splits
           dest!: coerceRow_length place_length)

text \<open>
  Witness for C10: \<open>INSERT INTO t VALUES (NULL, 'z')\<close> violates the not-null constraint
  of column \<open>a\<close> and leaves the two rows of the example table.
\<close>

theorem insert_failure_keeps_rows_witness:
  "\<forall>L. insert_row L example_table [] [None, Some (StringValue ''z'')] =
     (example_table,
      Inl (PlainError (Sprintf ''null value in column %q violates not-null constraint'' [ArgString ''a''])))
   \<and> Data example_table =
        [[Some (IntegerValue 1), Some (StringValue ''x'')], [Some (IntegerValue 2), Some (StringValue ''y'')]]"
proof
  fix L
  have e: "insert_row L example_table [] [None, Some (StringValue ''z'')] =
     (example_table,
      Inl (PlainError (Sprintf ''null value in column %q violates not-null constraint'' [ArgString ''a''])))"
    by (simp add: insert_row_def example_defs copyInto_def)
  from insert_failure_keeps_rows[OF e] e
  show "insert_row L example_table [] [None, Some (StringValue ''z'')] =
     (example_table,
      Inl (PlainError (Sprintf ''null value in column %q violates not-null constraint'' [ArgString ''a''])))
   \<and> Data example_table =
        [[Some (IntegerValue 1), Some (StringValue ''x'')], [Some (IntegerValue 2), Some (StringValue ''y'')]]"
    by (simp add: example_table_def)
qed

subsection \<open>SELECT with aggregates\<close>

lemma aggregateRows_no_match:
  "\<forall>row\<in>set rows. whereMatches L (currentRow table row) wh = Inr False \<Longrightarrow>
   aggregateRows L table wh rows st = Inr st"
  by (induction rows) (cases st; simp del: whereMatches.simps)+

lemmas agg_defs = evalSelectStmt_def evalAggregateSelectStmt_def expandStar_def isAggFunc_def
  builtinAggFuncs_def newCountAggFunc_def newMinAggFunc_def newMaxAggFunc_def newSumAggFunc_def
  validateArgCount_def isSelectStar_def aggFuncExpr_def mapInr_def

text \<open>
  C2 (as the code has it). \<open>SELECT COUNT(*) FROM T WHERE w\<close>, where \<open>w\<close> is false on
  every row of \<open>T\<close>, returns a table with the one column \<open>?\<close> and no row: the
  aggregate path builds its single row only if some row matched.
\<close>

theorem count_star_no_match_is_empty:
  assumes "tables env name = Some table"
    and "\<forall>row\<in>set (Data table). whereMatches L (currentRow table row) (Some w) = Inr False"
  shows "evalSelectStmt L env p [FunctionCall (Ident q ''count'') [SelectStarExpr r]]
           (IdentExpr (Ident s name)) (Some w) =
         Inr \<lparr>TableName = [], Columns = [zeroColumn\<lparr>Name := ''?''\<rparr>], Data = []\<rparr>"
  using assms(1) aggregateRows_no_match[OF assms(2)]
  by (simp add: agg_defs lookupTable_def del: whereMatches.simps)

text \<open>Witness for C2: \<open>SELECT COUNT(*) FROM t WHERE a = 3\<close> on the example table.\<close>

theorem count_star_no_match_is_empty_witness:
  "\<forall>L. evalSelectStmt L example_env zeroPos [FunctionCall (Ident zeroPos ''count'') [SelectStarExpr zeroPos]]
          (IdentExpr (Ident zeroPos ''t''))
          (Some (BinaryExpr (IdentExpr (ident ''a'')) token_Equal (IntegerLiteral zeroPos 3))) =
        Inr \<lparr>TableName = [], Columns = [zeroColumn\<lparr>Name := ''?''\<rparr>], Data = []\<rparr>"
proof
  fix L
  let ?w = "BinaryExpr (IdentExpr (ident ''a'')) token_Equal (IntegerLiteral zeroPos 3)"
  have t: "tables example_env ''t'' = Some example_table"
    by (simp add: example_defs)
  have h: "\<forall>row\<in>set (Data example_table). whereMatches L (currentRow example_table row) (Some ?w) = Inr False"
    by (simp add: example_defs binaryOp_def cmpInts_def mapInr_def valueToBoolean_def)
  from count_star_no_match_is_empty[OF t h]
  show "evalSelectStmt L example_env zeroPos [FunctionCall (Ident zeroPos ''count'') [SelectStarExpr zeroPos]]
          (IdentExpr (Ident zeroPos ''t'')) (Some ?w) =
        Inr \<lparr>TableName = [], Columns = [zeroColumn\<lparr>Name := ''?''\<rparr>], Data = []\<rparr>" .
qed

text \<open>
  Counterexample to C2 as stated: \<open>SELECT COUNT(*) FROM t WHERE FALSE\<close> on the example
  table, which has two rows, returns no row at all.
\<close>

theorem count_star_where_false_counterexample:
  "\<forall>L. EvalStmt L example_env
          (SelectStmt zeroPos [FunctionCall (ident ''count'') [SelectStarExpr zeroPos]]
             (IdentExpr (ident ''t'')) (Some (BooleanLiteral zeroPos False))) =
        Returns (example_env,
                 Some \<lparr>TableName = [], Columns = [zeroColumn\<lparr>Name := ''?''\<rparr>], Data = []\<rparr>, None)
      \<and> length (Data example_table) = 2"
  by (simp add: agg_defs example_defs valueToBoolean_def)

text \<open>
  C3 (the code at a failing input). On the table \<open>u\<close> with the numbers 1.5 and 2.5,
  \<open>SELECT MIN(c), MAX(c) FROM u\<close> returns \<open>2 ^ 63\<close> and \<open>- (2 ^ 63)\<close>, the floats of
  the accumulator's initial \<open>MaxInt64\<close> and \<open>MinInt64\<close>: \<open>setFloat\<close> keeps the larger
  number for MIN and the smaller for MAX.
\<close>

theorem min_max_of_numbers_inverted:
  "EvalStmt L numbers_env
     (SelectStmt zeroPos
        [FunctionCall (ident ''min'') [IdentExpr (ident ''c'')],
         FunctionCall (ident ''max'') [IdentExpr (ident ''c'')]]
        (IdentExpr (ident ''u'')) None) =
   Returns (numbers_env,
            Some \<lparr>TableName = [],
                  Columns = [zeroColumn\<lparr>Name := ''?''\<rparr>, zeroColumn\<lparr>Name := ''?''\<rparr>],
                  Data = [[Some (NumberValue 0x43E0000000000000), Some (NumberValue 0xC3E0000000000000)]]\<rparr>,
            None)"
  by (simp add: agg_defs numbers_env_def numbers_table_def ident_def zeroColumn_def colIndex_def
        lookupTable_def setFloat_def f_lt_def f_key_def f_isNaN_def f_exponent_def f_fraction_def
        f_of_int64_def f_of_magnitude_def MaxInt64_def MinInt64_def)

text \<open>
  C4 (the code on every input of the claim). A String on the left of a comparison with
  an Integer or a Number is never read: the right operand is compared with itself.
  So \<open>'5' = 3\<close> is true.
\<close>

theorem string_on_the_left_is_ignored:
  "comparisonOp L p op (Some (StringValue s)) (Some (IntegerValue n)) = cmpInts p op n n
   \<and> comparisonOp L p op (Some (StringValue s)) (Some (NumberValue x)) = cmpFloats p op x x
   \<and> comparisonOp L p token_Equal (Some (StringValue ''5'')) (Some (IntegerValue 3)) = Inr True"
  by (simp add: cmpInts_def)

subsection \<open>SELECT and a null predicate\<close>

text \<open>
  C6 (the code at a failing input). \<open>SELECT a FROM t WHERE NULL\<close> on the example table:
  the predicate evaluates to null, \<open>toBoolean\<close> is called on the nil value, and the
  statement ends with the runtime's error and no result table. \<open>WHERE FALSE\<close> returns
  a table without rows and no error.
\<close>

theorem select_where_null_is_an_error:
  "EvalStmt L example_env
     (SelectStmt zeroPos [IdentExpr (ident ''a'')] (IdentExpr (ident ''t'')) (Some (Null zeroPos))) =
   Returns (example_env, None, Some nilDereference)
   \<and> EvalStmt L example_env
     (SelectStmt zeroPos [IdentExpr (ident ''a'')] (IdentExpr (ident ''t'')) (Some (BooleanLiteral zeroPos False))) =
   Returns (example_env, Some \<lparr>TableName = [], Columns = [zeroColumn\<lparr>Name := ''a''\<rparr>], Data = []\<rparr>, None)"
  by (simp add: evalSelectStmt_def expandStar_def example_defs valueToBoolean_def isAggFunc_def
        builtinAggFuncs_def resultColumn_def recovered_def nilDereference_def)

subsection \<open>UPDATE\<close>

lemma rowAfter_0: "rowAfter L table names vals 0 row = row"
  by (simp add: rowAfter_def)

lemma rowAfter_Suc:
  "assignmentStep L table name val row row' \<Longrightarrow>
   rowAfter L table (name # names) (val # vals) (Suc k) row = rowAfter L table names vals k row'"
  by (auto simp: rowAfter_def assignmentStep_def Let_def split: sum.splits)

lemma applySet_Cons_ok:
  "assignmentStep L table name val row row' \<Longrightarrow>
   applySet L table (name # names) (val # vals) row = applySet L table names vals row'"
  by (auto simp: assignmentStep_def Let_def split: sum.splits)

lemma applySet_Cons_fails:
  "\<forall>row'. \<not> assignmentStep L table name val row row' \<Longrightarrow>
   \<exists>e. applySet L table (name # names) (val # vals) row = (row, Inl e)"
  by (auto simp: assignmentStep_def Let_def split: sum.splits)

lemma applySet_trace:
  "length names = length vals \<Longrightarrow>
   \<exists>m\<le>length names.
      fst (applySet L table names vals row) = rowAfter L table names vals m row
    \<and> (snd (applySet L table names vals row) = Inr () \<longrightarrow> m = length names)
    \<and> (\<forall>k<m. assignmentStep L table (names ! k) (vals ! k)
               (rowAfter L table names vals k row) (rowAfter L table names vals (Suc k) row))"
proof (induction names vals arbitrary: row rule: list_induct2)
  case Nil
  show ?case by (simp add: rowAfter_def)
next
  case (Cons name names val vals)
  show ?case
  proof (cases "\<exists>row'. assignmentStep L table name val row row'")
    case False
    then obtain e where "applySet L table (name # names) (val # vals) row = (row, Inl e)"
      using applySet_Cons_fails by blast
    then show ?thesis
      by (intro exI[of _ 0]) (simp add: rowAfter_0)
  next
    case True
    then obtain row' where s: "assignmentStep L table name val row row'" ..
    from Cons.IH[of row'] obtain m where m: "m \<le> length names"
      "fst (applySet L table names vals row') = rowAfter L table names vals m row'"
      "snd (applySet L table names vals row') = Inr () \<longrightarrow> m = length names"
      "\<forall>k<m. assignmentStep L table (names ! k) (vals ! k)
               (rowAfter L table names vals k row') (rowAfter L table names vals (Suc k) row')"
      by blast
    have "\<forall>k<Suc m. assignmentStep L table ((name # names) ! k) ((val # vals) ! k)
             (rowAfter L table (name # names) (val # vals) k row)
             (rowAfter L table (name # names) (val # vals) (Suc k) row)"
    proof (intro allI impI)
      fix k assume k: "k < Suc m"
      show "assignmentStep L table ((name # names) ! k) ((val # vals) ! k)
             (rowAfter L table (name # names) (val # vals) k row)
             (rowAfter L table (name # names) (val # vals) (Suc k) row)"
      proof (cases k)
        case 0
        with s show ?thesis by (simp add: rowAfter_0 rowAfter_Suc[OF s])
      next
        case (Suc j)
        with k m(4) show ?thesis by (simp add: rowAfter_Suc[OF s])
      qed
    qed
    with m(1-3) show ?thesis
      by (intro exI[of _ "Suc m"]) (simp add: applySet_Cons_ok[OF s] rowAfter_Suc[OF s] del: applySet.simps)
  qed
qed

lemma updateRows_trace:
  assumes "length names = length vals"
  shows "length (fst (updateRows L table names vals wh rows)) = length rows \<and>
   (\<forall>i<length rows.
      fst (updateRows L table names vals wh rows) ! i = rows ! i
        \<and> (snd (updateRows L table names vals wh rows) = Inr () \<longrightarrow>
             whereMatches L (currentRow table (rows ! i)) wh = Inr False)
    \<or> whereMatches L (currentRow table (rows ! i)) wh = Inr True
        \<and> (\<exists>m\<le>length names.
              fst (updateRows L table names vals wh rows) ! i = rowAfter L table names vals m (rows ! i)
            \<and> (snd (updateRows L table names vals wh rows) = Inr () \<longrightarrow> m = length names)
            \<and> (\<forall>k<m. assignmentStep L table (names ! k) (vals ! k)
                 (rowAfter L table names vals k (rows ! i))
                 (rowAfter L table names vals (Suc k) (rows ! i)))))"
    (is "?len rows \<and> (\<forall>i<length rows. ?P rows i)")
proof (induction rows)
  case Nil
  show ?case by simp
next
  case (Cons row rows)
  obtain rs r where u: "updateRows L table names vals wh rows = (rs, r)"
    by (cases "updateRows L table names vals wh rows")
  obtain row1 r1 where a: "applySet L table names vals row = (row1, r1)"
    by (cases "applySet L table names vals row")
  from applySet_trace[OF assms, of L table row] a obtain m where m: "m \<le> length names"
      "row1 = rowAfter L table names vals m row"
      "r1 = Inr () \<longrightarrow> m = length names"
      "\<forall>k<m. assignmentStep L table (names ! k) (vals ! k)
               (rowAfter L table names vals k row) (rowAfter L table names vals (Suc k) row)"
    by auto
  note IH = Cons.IH[unfolded u fst_conv snd_conv]
  show ?case
  proof (cases "whereMatches L (currentRow table row) wh")
    case (Inl e)
    then have "updateRows L table names vals wh (row # rows) = (row # rows, Inl e)"
      by (simp del: whereMatches.simps)
    then show ?thesis by simp
  next
    case (Inr b)
    show ?thesis
    proof (cases b)
      case False
      with Inr have e: "updateRows L table names vals wh (row # rows) = (row # rs, r)"
        by (simp add: u del: whereMatches.simps)
      show ?thesis
        unfolding e fst_conv snd_conv
      proof (intro conjI allI impI)
        show "length (row # rs) = length (row # rows)" using IH by simp
      next
        fix i assume "i < length (row # rows)"
        then show "(row # rs) ! i = (row # rows) ! i
            \<and> (r = Inr () \<longrightarrow> whereMatches L (currentRow table ((row # rows) ! i)) wh = Inr False)
          \<or> whereMatches L (currentRow table ((row # rows) ! i)) wh = Inr True
            \<and> (\<exists>m\<le>length names.
                  (row # rs) ! i = rowAfter L table names vals m ((row # rows) ! i)
                \<and> (r = Inr () \<longrightarrow> m = length names)
                \<and> (\<forall>k<m. assignmentStep L table (names ! k) (vals ! k)
                     (rowAfter L table names vals k ((row # rows) ! i))
                     (rowAfter L table names vals (Suc k) ((row # rows) ! i))))"
          using IH Inr False by (cases i) (simp_all del: whereMatches.simps)
      qed
    next
      case True
      show ?thesis
      proof (cases r1)
        case (Inl e)
        with Inr True a have e: "updateRows L table names vals wh (row # rows) = (row1 # rows, Inl e)"
          by (simp del: whereMatches.simps)
        show ?thesis
          unfolding e fst_conv snd_conv
        proof (intro conjI allI impI)
          show "length (row1 # rows) = length (row # rows)" by simp
        next
          fix i assume "i < length (row # rows)"
          then show "(row1 # rows) ! i = (row # rows) ! i
              \<and> (Inl e = Inr () \<longrightarrow> whereMatches L (currentRow table ((row # rows) ! i)) wh = Inr False)
            \<or> whereMatches L (currentRow table ((row # rows) ! i)) wh = Inr True
              \<and> (\<exists>m\<le>length names.
                    (row1 # rows) ! i = rowAfter L table names vals m ((row # rows) ! i)
                  \<and> (Inl e = Inr () \<longrightarrow> m = length names)
                  \<and> (\<forall>k<m. assignmentStep L table (names ! k) (vals ! k)
                       (rowAfter L table names vals k ((row # rows) ! i))
                       (rowAfter L table names vals (Suc k) ((row # rows) ! i))))"
          proof (cases i)
            case 0
            with Inr True m show ?thesis by (auto simp del: whereMatches.simps)
          next
            case (Suc j)
            then show ?thesis by simp
          qed
        qed
      next
        case (Inr x)
        with \<open>whereMatches L (currentRow table row) wh = Inr b\<close> True a
        have e: "updateRows L table names vals wh (row # rows) = (row1 # rs, r)"
          by (simp add: u del: whereMatches.simps)
        from Inr m have ml: "m = length names" by simp
        show ?thesis
          unfolding e fst_conv snd_conv
        proof (intro conjI allI impI)
          show "length (row1 # rs) = length (row # rows)" using IH by simp
        next
          fix i assume i: "i < length (row # rows)"
          show "(row1 # rs) ! i = (row # rows) ! i
              \<and> (r = Inr () \<longrightarrow> whereMatches L (currentRow table ((row # rows) ! i)) wh = Inr False)
            \<or> whereMatches L (currentRow table ((row # rows) ! i)) wh = Inr True
              \<and> (\<exists>m\<le>length names.
                    (row1 # rs) ! i = rowAfter L table names vals m ((row # rows) ! i)
                  \<and> (r = Inr () \<longrightarrow> m = length names)
                  \<and> (\<forall>k<m. assignmentStep L table (names ! k) (vals ! k)
                       (rowAfter L table names vals k ((row # rows) ! i))
                       (rowAfter L table names vals (Suc k) ((row # rows) ! i))))"
          proof (cases i)
            case 0
            with \<open>whereMatches L (currentRow table row) wh = Inr b\<close> True m ml show ?thesis
              by (auto simp del: whereMatches.simps)
          next
            case (Suc j)
            with i IH show ?thesis by (simp del: whereMatches.simps)
          qed
        qed
      qed
    qed
  qed
qed

text \<open>
  C5 (as the code has it). An UPDATE of a table of the environment, with as many
  right-hand sides as columns in its SET clause, returns the environment with the rows
  of that table replaced one for one, whether it succeeds (\<open>r = Inr ()\<close>) or fails.
  For each row of the table:
  \<^item> either it is left as it was, and if the statement succeeded the WHERE clause,
    evaluated against that row, is false;
  \<^item> or the WHERE clause, evaluated against that row as it was, is true (there is no
    clause, or it is true), and the new row is the last of a sequence \<open>rs\<close> of rows that
    starts with the original row and in which row \<open>k + 1\<close> is row \<open>k\<close> with the
    column of the \<open>k\<close>-th assignment set to the value of its right-hand side
    \<^emph>\<open>evaluated against row \<open>k\<close>\<close>, the row as the assignments before it have left it.
    If the statement succeeded the sequence runs through all the assignments.
\<close>

theorem update_reads_earlier_writes:
  assumes "length names = length vals"
    and "tables env (IdentName tab) = Some table"
  shows "\<exists>data' r.
      evalUpdateStmt L env tab names vals wh =
        (env\<lparr>tables := (tables env)(IdentName tab \<mapsto> table\<lparr>Data := data'\<rparr>)\<rparr>, r)
    \<and> length data' = length (Data table)
    \<and> (\<forall>i<length (Data table).
          data' ! i = Data table ! i
            \<and> (r = Inr () \<longrightarrow> whereMatches L (currentRow table (Data table ! i)) wh = Inr False)
        \<or> whereMatches L (currentRow table (Data table ! i)) wh = Inr True
            \<and> (\<exists>rs. rs \<noteq> [] \<and> length rs \<le> Suc (length names)
                  \<and> hd rs = Data table ! i \<and> last rs = data' ! i
                  \<and> (r = Inr () \<longrightarrow> length rs = Suc (length names))
                  \<and> (\<forall>k<length rs - 1.
                        assignmentStep L table (names ! k) (vals ! k) (rs ! k) (rs ! Suc k))))"
proof -
  let ?u = "updateRows L table names vals wh (Data table)"
  have e: "evalUpdateStmt L env tab names vals wh =
        (env\<lparr>tables := (tables env)(IdentName tab \<mapsto> table\<lparr>Data := fst ?u\<rparr>)\<rparr>, snd ?u)"
    using assms(2) by (simp add: evalUpdateStmt_def lookupTable_def split: prod.splits)
  note t = updateRows_trace[OF assms(1), of L table wh "Data table"]
  have "\<forall>i<length (Data table).
          fst ?u ! i = Data table ! i
            \<and> (snd ?u = Inr () \<longrightarrow> whereMatches L (currentRow table (Data table ! i)) wh = Inr False)
        \<or> whereMatches L (currentRow table (Data table ! i)) wh = Inr True
            \<and> (\<exists>rs. rs \<noteq> [] \<and> length rs \<le> Suc (length names)
                  \<and> hd rs = Data table ! i \<and> last rs = fst ?u ! i
                  \<and> (snd ?u = Inr () \<longrightarrow> length rs = Suc (length names))
                  \<and> (\<forall>k<length rs - 1.
                        assignmentStep L table (names ! k) (vals ! k) (rs ! k) (rs ! Suc k)))"
  proof (intro allI impI)
    fix i assume i: "i < length (Data table)"
    let ?row = "Data table ! i"
    from t i consider
      (same) "fst ?u ! i = ?row"
        "snd ?u = Inr () \<longrightarrow> whereMatches L (currentRow table ?row) wh = Inr False"
      | (set) m where "whereMatches L (currentRow table ?row) wh = Inr True" "m \<le> length names"
        "fst ?u ! i = rowAfter L table names vals m ?row"
        "snd ?u = Inr () \<longrightarrow> m = length names"
        "\<forall>k<m. assignmentStep L table (names ! k) (vals ! k)
                 (rowAfter L table names vals k ?row) (rowAfter L table names vals (Suc k) ?row)"
      by blast
    then show "fst ?u ! i = ?row
            \<and> (snd ?u = Inr () \<longrightarrow> whereMatches L (currentRow table ?row) wh = Inr False)
        \<or> whereMatches L (currentRow table ?row) wh = Inr True
            \<and> (\<exists>rs. rs \<noteq> [] \<and> length rs \<le> Suc (length names)
                  \<and> hd rs = ?row \<and> last rs = fst ?u ! i
                  \<and> (snd ?u = Inr () \<longrightarrow> length rs = Suc (length names))
                  \<and> (\<forall>k<length rs - 1.
                        assignmentStep L table (names ! k) (vals ! k) (rs ! k) (rs ! Suc k)))"
    proof cases
      case same
      then show ?thesis by (intro disjI1) simp
    next
      case (set m)
      let ?rs = "map (\<lambda>k. rowAfter L table names vals k ?row) [0..<Suc m]"
      have n: "\<And>k. k \<le> m \<Longrightarrow> ?rs ! k = rowAfter L table names vals k ?row"
        by (simp add: nth_map_upt del: upt_Suc)
      have 1: "?rs \<noteq> []" by simp
      have 2: "length ?rs \<le> Suc (length names)" using set(2) by simp
      have 3: "hd ?rs = ?row" by (simp add: hd_conv_nth n rowAfter_0 del: upt_Suc map_upt_Suc)
      have 4: "last ?rs = fst ?u ! i" using set(3) by (simp add: last_conv_nth n del: upt_Suc map_upt_Suc)
      have 5: "snd ?u = Inr () \<longrightarrow> length ?rs = Suc (length names)" using set(4) by simp
      have 6: "\<forall>k<length ?rs - 1.
          assignmentStep L table (names ! k) (vals ! k) (?rs ! k) (?rs ! Suc k)"
      proof (intro allI impI)
        fix k assume "k < length ?rs - 1"
        then have k: "k < m" by simp
        then have "?rs ! k = rowAfter L table names vals k ?row"
          "?rs ! Suc k = rowAfter L table names vals (Suc k) ?row"
          using n[of k] n[of "Suc k"] by simp_all
        with set(5) k show "assignmentStep L table (names ! k) (vals ! k) (?rs ! k) (?rs ! Suc k)"
          by simp
      qed
      show ?thesis
        by (rule disjI2, rule conjI[OF set(1)], rule exI[of _ ?rs]) (intro conjI 1 2 3 4 5 6)
    qed
  qed
  then show ?thesis
    unfolding e using t by (intro exI[of _ "fst ?u"] exI[of _ "snd ?u"]) simp
qed

text \<open>
  Witness for C5: \<open>UPDATE t SET a = a + 1, b = a WHERE a = 1\<close> on the example table.
  The theorem decides the result: the row \<open>(1, 'x')\<close> matches and goes through
  \<open>(2, 'x')\<close> to \<open>(2, 2)\<close>, the second assignment reading the \<open>a\<close> that the first has
  written; the row \<open>(2, 'y')\<close> does not match and stays.
\<close>

theorem update_reads_earlier_writes_witness:
  "\<forall>L. evalUpdateStmt L example_env (ident ''t'') [ident ''a'', ident ''b'']
          [BinaryExpr (IdentExpr (ident ''a'')) token_Plus (IntegerLiteral zeroPos 1), IdentExpr (ident ''a'')]
          (Some (BinaryExpr (IdentExpr (ident ''a'')) token_Equal (IntegerLiteral zeroPos 1))) =
        (example_env\<lparr>tables := (tables example_env)(''t'' \<mapsto> example_table\<lparr>Data :=
            [[Some (IntegerValue 2), Some (IntegerValue 2)],
             [Some (IntegerValue 2), Some (StringValue ''y'')]]\<rparr>)\<rparr>, Inr ())"
proof
  fix L
  let ?names = "[ident ''a'', ident ''b'']"
  let ?vals = "[BinaryExpr (IdentExpr (ident ''a'')) token_Plus (IntegerLiteral zeroPos 1), IdentExpr (ident ''a'')]"
  let ?wh = "Some (BinaryExpr (IdentExpr (ident ''a'')) token_Equal (IntegerLiteral zeroPos 1))"
  let ?row0 = "[Some (IntegerValue 1), Some (StringValue ''x'')]"
  let ?row1 = "[Some (IntegerValue 2), Some (StringValue ''y'')]"
  have l: "length ?names = length ?vals" by simp
  have t: "tables example_env (IdentName (ident ''t'')) = Some example_table"
    by (simp add: example_defs)
  have d: "Data example_table = [?row0, ?row1]" by (simp add: example_defs)
  from update_reads_earlier_writes[OF l t, of L ?wh] obtain data' r where
    e: "evalUpdateStmt L example_env (ident ''t'') ?names ?vals ?wh =
        (example_env\<lparr>tables := (tables example_env)(IdentName (ident ''t'') \<mapsto> example_table\<lparr>Data := data'\<rparr>)\<rparr>, r)"
    and len: "length data' = length (Data example_table)"
    and rows: "\<forall>i<length (Data example_table).
          data' ! i = Data example_table ! i
            \<and> (r = Inr () \<longrightarrow> whereMatches L (currentRow example_table (Data example_table ! i)) ?wh = Inr False)
        \<or> whereMatches L (currentRow example_table (Data example_table ! i)) ?wh = Inr True
            \<and> (\<exists>rs. rs \<noteq> [] \<and> length rs \<le> Suc (length ?names)
                  \<and> hd rs = Data example_table ! i \<and> last rs = data' ! i
                  \<and> (r = Inr () \<longrightarrow> length rs = Suc (length ?names))
                  \<and> (\<forall>k<length rs - 1.
                        assignmentStep L example_table (?names ! k) (?vals ! k) (rs ! k) (rs ! Suc k)))"
    by blast
  have "snd (evalUpdateStmt L example_env (ident ''t'') ?names ?vals ?wh) = Inr ()"
    by (simp add: evalUpdateStmt_def example_defs binaryOp_def arithOpInt_def cmpInts_def
          mapInr_def valueToBoolean_def)
  with e have r: "r = Inr ()" by simp
  have w0: "whereMatches L (currentRow example_table ?row0) ?wh = Inr True"
    by (simp add: example_defs binaryOp_def cmpInts_def mapInr_def valueToBoolean_def)
  have w1: "whereMatches L (currentRow example_table ?row1) ?wh = Inr False"
    by (simp add: example_defs binaryOp_def cmpInts_def mapInr_def valueToBoolean_def)
  have s0: "\<And>x. assignmentStep L example_table (ident ''a'') (?vals ! 0) ?row0 x \<Longrightarrow>
                 x = [Some (IntegerValue 2), Some (StringValue ''x'')]"
    by (simp add: assignmentStep_def example_defs binaryOp_def arithOpInt_def)
  have s1: "\<And>x. assignmentStep L example_table (ident ''b'') (?vals ! 1)
                   [Some (IntegerValue 2), Some (StringValue ''x'')] x \<Longrightarrow>
                 x = [Some (IntegerValue 2), Some (IntegerValue 2)]"
    by (simp add: assignmentStep_def example_defs)
  from rows[rule_format, of 0] r w0 d obtain rs where rs: "length rs = Suc (Suc (Suc 0))"
    "hd rs = ?row0" "last rs = data' ! 0"
    "\<forall>k<Suc (Suc 0). assignmentStep L example_table (?names ! k) (?vals ! k) (rs ! k) (rs ! Suc k)"
    by (auto simp del: whereMatches.simps)
  from rs(1,2) have h: "rs ! 0 = ?row0" by (cases rs) simp_all
  from rs(1) have "rs \<noteq> []" by auto
  from last_conv_nth[OF this] rs(1,3) have la: "rs ! Suc (Suc 0) = data' ! 0" by simp
  from rs(4)[rule_format, of 0] h s0
  have 1: "rs ! Suc 0 = [Some (IntegerValue 2), Some (StringValue ''x'')]"
    by simp
  from rs(4)[rule_format, of "Suc 0"] 1 s1
  have "rs ! Suc (Suc 0) = [Some (IntegerValue 2), Some (IntegerValue 2)]"
    by simp
  with la have d0: "data' ! 0 = [Some (IntegerValue 2), Some (IntegerValue 2)]" by simp
  from rows[rule_format, of 1] r w1 d have d1: "data' ! 1 = ?row1"
    by (auto simp del: whereMatches.simps)
  from len d have "length data' = 2" by simp
  then have "data' = [data' ! 0, data' ! 1]"
    by (cases data'; cases "tl data'") (auto simp: length_Suc_conv)
  with d0 d1 have "data' = [[Some (IntegerValue 2), Some (IntegerValue 2)], ?row1]" by simp
  with e r show "evalUpdateStmt L example_env (ident ''t'') ?names ?vals ?wh =
        (example_env\<lparr>tables := (tables example_env)(''t'' \<mapsto> example_table\<lparr>Data :=
            [[Some (IntegerValue 2), Some (IntegerValue 2)],
             [Some (IntegerValue 2), Some (StringValue ''y'')]]\<rparr>)\<rparr>, Inr ())"
    by (simp add: ident_def)
qed

text \<open>
  Counterexample to C5 as stated: \<open>UPDATE t SET a = a + 1, b = a WHERE a = 1\<close> on
  the example table. The row \<open>(1, 'x')\<close> is matched and its original \<open>a\<close> is 1, yet
  the statement stores 2 in \<open>b\<close>, the value written by the first assignment; with
  the right-hand sides evaluated against the original row \<open>b\<close> would become 1.
\<close>

theorem update_sees_partial_row_counterexample:
  "\<forall>L. evalUpdateStmt L example_env (ident ''t'') [ident ''a'', ident ''b'']
          [BinaryExpr (IdentExpr (ident ''a'')) token_Plus (IntegerLiteral zeroPos 1), IdentExpr (ident ''a'')]
          (Some (BinaryExpr (IdentExpr (ident ''a'')) token_Equal (IntegerLiteral zeroPos 1))) =
        (\<lparr>tables = [''t'' \<mapsto> example_table\<lparr>Data :=
            [[Some (IntegerValue 2), Some (IntegerValue 2)],
             [Some (IntegerValue 2), Some (StringValue ''y'')]]\<rparr>]\<rparr>, Inr ())
      \<and> whereMatches L (currentRow example_table [Some (IntegerValue 1), Some (StringValue ''x'')])
          (Some (BinaryExpr (IdentExpr (ident ''a'')) token_Equal (IntegerLiteral zeroPos 1))) = Inr True
      \<and> evalExpr L [] (currentRow example_table [Some (IntegerValue 1), Some (StringValue ''x'')])
          (IdentExpr (ident ''a'')) = Inr (Some (IntegerValue 1))
      \<and> applySet_preupdate L example_table [Some (IntegerValue 1), Some (StringValue ''x'')]
          [ident ''a'', ident ''b'']
          [BinaryExpr (IdentExpr (ident ''a'')) token_Plus (IntegerLiteral zeroPos 1), IdentExpr (ident ''a'')]
          [Some (IntegerValue 1), Some (StringValue ''x'')] =
        ([Some (IntegerValue 2), Some (IntegerValue 1)], Inr ())"
  by (simp add: evalUpdateStmt_def example_defs binaryOp_def arithOpInt_def cmpInts_def
        mapInr_def valueToBoolean_def)

subsection \<open>CREATE TABLE, INSERT, SELECT *\<close>

lemma tableColumns_names:
  "tableColumns defs = Inr columns \<Longrightarrow> map Name columns = map (\<lambda>d. IdentName (DefName d)) defs"
  by (induction defs arbitrary: columns) (auto split: sum.splits)

lemma duplicateColumn_None:
  "duplicateColumn seen cols = None \<Longrightarrow>
   distinct (map Name cols) \<and> set (map Name cols) \<inter> set seen = {}"
proof (induction cols arbitrary: seen)
  case Nil
  then show ?case by simp
next
  case (Cons c cols)
  then have n: "Name c \<notin> set seen" and d: "duplicateColumn (Name c # seen) cols = None"
    by (auto split: if_splits)
  from Cons.IH[OF d] have "distinct (map Name cols)" and "set (map Name cols) \<inter> set (Name c # seen) = {}"
    by auto
  with n show ?case by auto
qed

lemma colIndexFrom_nth:
  "distinct (map Name cols) \<Longrightarrow> k < length cols \<Longrightarrow>
   colIndexFrom i cols (Name (cols ! k)) = i + int k"
proof (induction cols arbitrary: i k)
  case Nil
  then show ?case by simp
next
  case (Cons c cols)
  show ?case
  proof (cases k)
    case 0
    then show ?thesis by simp
  next
    case (Suc j)
    with Cons.prems have "Name c \<noteq> Name (cols ! j)" and "j < length cols" and "distinct (map Name cols)"
      by auto
    with Cons.IH[of j "i + 1"] Suc show ?thesis by simp
  qed
qed

lemma colIndexFrom_member:
  "name \<in> set (map Name cols) \<Longrightarrow> i \<le> colIndexFrom i cols name"
proof (induction cols arbitrary: i)
  case Nil
  then show ?case by simp
next
  case (Cons c cols)
  show ?case
  proof (cases "Name c = name")
    case True
    then show ?thesis by simp
  next
    case False
    with Cons.prems have "name \<in> set (map Name cols)" by auto
    from Cons.IH[OF this, of "i + 1"] False show ?thesis by simp
  qed
qed

lemma create_table_ok:
  assumes "evalCreateTableStmt env tab defs = (env1, Inr ())"
  shows "\<exists>columns. tableColumns defs = Inr columns \<and> distinct (map Name columns)
           \<and> tables env1 (IdentName tab) =
               Some \<lparr>TableName = IdentName tab, Columns = columns, Data = []\<rparr>"
  using assms
  by (auto simp: evalCreateTableStmt_def CreateTable_def
           split: sum.splits option.splits if_splits dest: duplicateColumn_None)

text \<open>The casts of the source and the table of conversions agree.\<close>

lemma find_layout:
  "(case List.find (\<lambda>layout. TimeParse L layout s \<noteq> None) layouts of
      Some layout \<Rightarrow> map_option TimestampValue (TimeParse L layout s)
    | None \<Rightarrow> None) =
   (case parseTimestamp L layouts s of Inl e \<Rightarrow> None | Inr t \<Rightarrow> Some (TimestampValue t))"
  by (induction layouts) auto

lemma converted_timestamp:
  "converted L eval_Timestamp (StringValue s) =
     (case parseTimestamp L timeLayouts s of Inl e \<Rightarrow> None | Inr t \<Rightarrow> Some (TimestampValue t))"
  using find_layout[of L s timeLayouts] by simp

lemma converted_Some:
  assumes "converted L t v = Some v'"
  shows "coerce L v t = Inr v'"
proof (cases "\<exists>s. t = eval_Timestamp \<and> v = StringValue s")
  case True
  then obtain s where ts: "t = eval_Timestamp" "v = StringValue s" by auto
  from assms[unfolded ts converted_timestamp] show ?thesis
    unfolding ts by (simp add: mapInr_def split: sum.splits)
next
  case False
  with assms show ?thesis
    by (cases t; cases v) (auto simp: mapInr_def split: prod.splits if_splits)
qed

lemma converted_None:
  assumes "converted L t v = None"
  shows "\<exists>e. coerce L v t = Inl e"
proof (cases "\<exists>s. t = eval_Timestamp \<and> v = StringValue s")
  case True
  then obtain s where ts: "t = eval_Timestamp" "v = StringValue s" by auto
  from assms[unfolded ts converted_timestamp] show ?thesis
    unfolding ts by (simp add: mapInr_def split: sum.splits)
next
  case False
  with assms show ?thesis
    by (cases t; cases v) (auto simp: mapInr_def split: prod.splits if_splits)
qed

lemma converted_type: "converted L t v = Some v' \<Longrightarrow> dataTypeOf v' = t"
  by (cases t; cases v) (auto split: if_splits option.splits)

text \<open>The last loop of \<open>insert\<close> stores the cell of each value, in order.\<close>

lemma coerceRow_Cons_Some:
  "storedCell L col value = Some c \<Longrightarrow>
   coerceRow L (col # cols) (value # row) =
     (case coerceRow L cols row of Inl e \<Rightarrow> Inl e | Inr row' \<Rightarrow> Inr (c # row'))"
  by (cases "value") (auto simp: storedCell_def mapInr_def split: if_splits dest: converted_Some)

lemma coerceRow_Cons_None:
  "storedCell L col value = None \<Longrightarrow> \<exists>e. coerceRow L (col # cols) (value # row) = Inl e"
  by (cases "value") (auto simp: storedCell_def mapInr_def split: if_splits dest: converted_None)

lemma coerceRow_cells_Inr:
  "length cols = length row \<Longrightarrow>
   list_all (\<lambda>(col, v). storedCell L col v \<noteq> None) (zip cols row) \<Longrightarrow>
   coerceRow L cols row = Inr (map (\<lambda>(col, v). the (storedCell L col v)) (zip cols row))"
proof (induction cols row rule: list_induct2)
  case Nil
  then show ?case by simp
next
  case (Cons col cols v row)
  then obtain w where "storedCell L col v = Some w" by auto
  with Cons show ?case by (simp add: coerceRow_Cons_Some del: coerceRow.simps)
qed

lemma coerceRow_cells_Inl:
  "length cols = length row \<Longrightarrow>
   \<not> list_all (\<lambda>(col, v). storedCell L col v \<noteq> None) (zip cols row) \<Longrightarrow>
   \<exists>e. coerceRow L cols row = Inl e"
proof (induction cols row rule: list_induct2)
  case Nil
  then show ?case by simp
next
  case (Cons col cols v row)
  show ?case
  proof (cases "storedCell L col v")
    case None
    from coerceRow_Cons_None[OF this] show ?thesis .
  next
    case (Some w)
    with Cons.prems have "\<not> list_all (\<lambda>(col, v). storedCell L col v \<noteq> None) (zip cols row)"
      by simp
    from Cons.IH[OF this] obtain e where "coerceRow L cols row = Inl e" ..
    with Some show ?thesis by (simp add: coerceRow_Cons_Some del: coerceRow.simps)
  qed
qed

lemma place_all_named:
  assumes "length names = length values"
    and "\<forall>c\<in>set cols. Name c \<in> set names"
  shows "place names values cols = (map (\<lambda>c. the (map_of (zip names values) (Name c))) cols, cols)"
  using assms(2)
proof (induction cols)
  case Nil
  then show ?case by simp
next
  case (Cons c cols)
  then have "Name c \<in> set names" by simp
  with assms(1) have "Name c \<in> dom (map_of (zip names values))" by simp
  then obtain v where "map_of (zip names values) (Name c) = Some v" by auto
  with Cons show ?case by simp
qed

lemma place_in_order:
  assumes "distinct (map Name cols)" and "length values = length cols"
  shows "place (map Name cols) values cols = (values, cols)"
proof -
  have "map (\<lambda>c. the (map_of (zip (map Name cols) values) (Name c))) cols = values"
  proof (rule nth_equalityI)
    show "length (map (\<lambda>c. the (map_of (zip (map Name cols) values) (Name c))) cols) = length values"
      using assms(2) by simp
  next
    fix i assume "i < length (map (\<lambda>c. the (map_of (zip (map Name cols) values) (Name c))) cols)"
    then have i: "i < length cols" by simp
    with assms have "map_of (zip (map Name cols) values) (map Name cols ! i) = Some (values ! i)"
      by (intro map_of_zip_nth) simp_all
    with i show "map (\<lambda>c. the (map_of (zip (map Name cols) values) (Name c))) cols ! i = values ! i"
      by simp
  qed
  with place_all_named[of "map Name cols" "values" cols] assms show ?thesis by simp
qed

lemma find_no_unknown_column:
  "find (\<lambda>name. colIndex tab name < 0) (map Name (Columns tab)) = None"
proof -
  have "\<And>name. name \<in> set (map Name (Columns tab)) \<Longrightarrow> \<not> colIndex tab name < 0"
    using colIndexFrom_member[of _ "Columns tab" 0] by (fastforce simp: colIndex_def)
  then show ?thesis by (simp add: find_None_iff)
qed

lemma insert_row_in_order:
  assumes "distinct (map Name (Columns tab))"
    and "names = [] \<or> names = map Name (Columns tab)"
  shows "case coercedRow L (Columns tab) values of
           Some row \<Rightarrow> insert_row L tab names values = (tab\<lparr>Data := Data tab @ [row]\<rparr>, Inr ())
         | None \<Rightarrow> (\<exists>e. insert_row L tab names values = (tab, Inl e))"
proof (cases "length values = length (Columns tab)")
  case False
  then show ?thesis
    using assms(2) by (auto simp: coercedRow_def insert_row_def)
next
  case len: True
  have row: "(if length names \<noteq> 0 then place names values (Columns tab)
              else (copyInto (length (Columns tab)) values, Columns tab)) = (values, Columns tab)"
    using assms len place_in_order[of "Columns tab" "values"] by (auto simp: copyInto_def)
  have nf: "names \<noteq> [] \<Longrightarrow> find (\<lambda>name. colIndex tab name < 0) names = None"
    using assms(2) find_no_unknown_column[of tab] by auto
  have ins: "insert_row L tab names values =
     (case coerceRow L (Columns tab) values of
        Inl e \<Rightarrow> (tab, Inl e)
      | Inr row' \<Rightarrow> (tab\<lparr>Data := Data tab @ [row']\<rparr>, Inr ()))"
  proof (cases "names = []")
    case True
    with len show ?thesis by (simp add: insert_row_def copyInto_def)
  next
    case False
    with assms(2) have n: "names = map Name (Columns tab)" by simp
    from False nf have f: "find (\<lambda>name. colIndex tab name < 0) names = None" by simp
    from row False have p: "place names values (Columns tab) = (values, Columns tab)" by simp
    from False n len f p show ?thesis
      by (simp add: insert_row_def split: sum.splits)
  qed
  show ?thesis
  proof (cases "list_all (\<lambda>(col, v). storedCell L col v \<noteq> None) (zip (Columns tab) values)")
    case True
    from coerceRow_cells_Inr[OF len[symmetric] True] ins True len show ?thesis
      by (simp add: coercedRow_def)
  next
    case False
    from coerceRow_cells_Inl[OF len[symmetric] False] ins False len show ?thesis
      by (auto simp: coercedRow_def)
  qed
qed

lemma coercedRow_length: "coercedRow L columns values = Some row \<Longrightarrow> length row = length columns"
  by (auto simp: coercedRow_def split: if_splits)

lemma insertedRowOf_length: "row \<in> set (insertedRowOf L columns stmt) \<Longrightarrow> length row = length columns"
  by (cases stmt) (auto simp: insertedRow_def split: option.splits sum.splits dest: coercedRow_length[OF sym])

text \<open>A stored cell has the declared type of its column.\<close>

lemma storedCell_typed:
  "storedCell L col value = Some c \<Longrightarrow>
   (case c of None \<Rightarrow> Nullable col | Some v \<Rightarrow> dataTypeOf v = Type col)"
  by (cases "value") (auto simp: storedCell_def split: if_splits dest: converted_type)

lemma coercedRow_typed:
  assumes "coercedRow L columns values = Some row" and "k < length columns"
  shows "case row ! k of None \<Rightarrow> Nullable (columns ! k) | Some v \<Rightarrow> dataTypeOf v = Type (columns ! k)"
proof -
  from assms(1) have l: "length values = length columns"
    and a: "list_all (\<lambda>(col, v). storedCell L col v \<noteq> None) (zip columns values)"
    and r: "row = map (\<lambda>(col, v). the (storedCell L col v)) (zip columns values)"
    by (auto simp: coercedRow_def split: if_splits)
  from a l assms(2) have "storedCell L (columns ! k) (values ! k) \<noteq> None"
    by (auto simp: list_all_length)
  then obtain c where c: "storedCell L (columns ! k) (values ! k) = Some c" by auto
  with r l assms(2) have "row ! k = c" by simp
  with storedCell_typed[OF c] show ?thesis by simp
qed

lemma insertedRowOf_typed:
  "row \<in> set (insertedRowOf L columns stmt) \<Longrightarrow> k < length columns \<Longrightarrow>
   (case row ! k of None \<Rightarrow> Nullable (columns ! k) | Some v \<Rightarrow> dataTypeOf v = Type (columns ! k))"
  by (cases stmt)
     (auto simp: insertedRow_def split: option.splits sum.splits dest: coercedRow_typed[OF sym])

lemma tableColumns_types:
  "tableColumns defs = Inr columns \<Longrightarrow>
   length columns = length defs \<and>
   (\<forall>k<length defs. dataTypeFromToken (DefType (defs ! k)) = Inr (Type (columns ! k))
       \<and> Nullable (columns ! k) = DefNullable (defs ! k))"
proof (induction defs arbitrary: columns)
  case Nil
  then show ?case by simp
next
  case (Cons d defs)
  then obtain t rest where t: "dataTypeFromToken (DefType d) = Inr t"
    and rest: "tableColumns defs = Inr rest"
    and c: "columns = zeroColumn\<lparr>Name := IdentName (DefName d), Type := t, Nullable := DefNullable d\<rparr> # rest"
    by (auto split: sum.splits)
  from Cons.IH[OF rest] t c show ?case
    by (auto simp: nth_Cons split: nat.splits)
qed

text \<open>One INSERT in table order, run by \<open>EvalStmt\<close>.\<close>

lemma insert_in_order_step:
  assumes "tables env name = Some tab"
    and "distinct (map Name (Columns tab))"
    and "map Name (Columns tab) = map (\<lambda>d. IdentName (DefName d)) defs"
    and "insertInOrder name defs stmt"
  shows "\<exists>env' err. EvalStmt L env stmt = Returns (env', None, err)
           \<and> tables env' name = Some (tab\<lparr>Data := Data tab @ insertedRowOf L (Columns tab) stmt\<rparr>)"
proof -
  from assms(4) obtain q t cols vals where stmt: "stmt = InsertStmt q t cols vals"
    and t: "IdentName t = name"
    and cols: "map IdentName cols = [] \<or> map IdentName cols = map Name (Columns tab)"
    using assms(3) by (cases stmt) auto
  show ?thesis
  proof (cases "evalExprs L [] emptyNamespace vals")
    case (Inl e)
    with assms(1) t show ?thesis
      by (simp add: stmt evalInsertStmt_def lookupTable_def returned_def insertedRow_def)
  next
    case (Inr vs)
    note ins = insert_row_in_order[OF assms(2) cols, of L vs]
    show ?thesis
    proof (cases "coercedRow L (Columns tab) vs")
      case None
      with ins obtain e where "insert_row L tab (map IdentName cols) vs = (tab, Inl e)" by auto
      with assms(1) t Inr None show ?thesis
        by (simp add: stmt evalInsertStmt_def lookupTable_def returned_def insertedRow_def)
    next
      case (Some row)
      with ins have "insert_row L tab (map IdentName cols) vs = (tab\<lparr>Data := Data tab @ [row]\<rparr>, Inr ())"
        by simp
      with assms(1) t Inr Some show ?thesis
        by (simp add: stmt evalInsertStmt_def lookupTable_def returned_def insertedRow_def)
    qed
  qed
qed

lemma inserts_in_order:
  assumes "distinct (map Name columns)"
    and "map Name columns = map (\<lambda>d. IdentName (DefName d)) defs"
    and "\<forall>stmt\<in>set stmts. insertInOrder name defs stmt"
    and "tables env name = Some tab" and "Columns tab = columns"
  shows "\<exists>env'. EvalStmts L env stmts = Returns env'
           \<and> tables env' name = Some (tab\<lparr>Data := Data tab @ concat (map (insertedRowOf L columns) stmts)\<rparr>)"
  using assms(3-5)
proof (induction stmts arbitrary: env tab)
  case Nil
  then show ?case by simp
next
  case (Cons stmt stmts)
  from Cons.prems have d: "distinct (map Name (Columns tab))"
    and n: "map Name (Columns tab) = map (\<lambda>d. IdentName (DefName d)) defs"
    and i: "insertInOrder name defs stmt"
    using assms(1,2) by auto
  from insert_in_order_step[OF Cons.prems(2) d n i, of L]
  obtain env1 err where e: "EvalStmt L env stmt = Returns (env1, None, err)"
    and t1: "tables env1 name = Some (tab\<lparr>Data := Data tab @ insertedRowOf L (Columns tab) stmt\<rparr>)"
    by blast
  from Cons.prems have r: "\<forall>stmt\<in>set stmts. insertInOrder name defs stmt" by simp
  from Cons.IH[OF r t1] Cons.prems(3)
  obtain env' where "EvalStmts L env1 stmts = Returns env'"
    and "tables env' name = Some (tab\<lparr>Data := Data tab @ insertedRowOf L columns stmt
            @ concat (map (insertedRowOf L columns) stmts)\<rparr>)"
    by auto
  with e show ?case by simp
qed

lemma evalExprs_nth:
  "length vs = length es \<Longrightarrow> \<forall>k<length es. evalExpr L funcs ns (es ! k) = Inr (vs ! k) \<Longrightarrow>
   evalExprs L funcs ns es = Inr vs"
proof (induction es arbitrary: vs)
  case Nil
  then show ?case by simp
next
  case (Cons e es)
  then obtain v vs' where vs: "vs = v # vs'" and l: "length vs' = length es" by (cases vs) auto
  from Cons.prems(2) vs have h: "evalExpr L funcs ns e = Inr v" by auto
  from Cons.prems(2) vs have "\<forall>k<length es. evalExpr L funcs ns (es ! k) = Inr (vs' ! k)" by auto
  from Cons.IH[OF l this] h vs show ?case by simp
qed

lemma evalExprs_star_row:
  assumes "distinct (map Name (Columns tab))" and "length row = length (Columns tab)"
  shows "evalExprs L [] (currentRow tab row) (map (\<lambda>col. IdentExpr (Ident q (Name col))) (Columns tab)) = Inr row"
proof (rule evalExprs_nth)
  show "length row = length (map (\<lambda>col. IdentExpr (Ident q (Name col))) (Columns tab))"
    using assms(2) by simp
next
  show "\<forall>k<length (map (\<lambda>col. IdentExpr (Ident q (Name col))) (Columns tab)).
          evalExpr L [] (currentRow tab row) (map (\<lambda>col. IdentExpr (Ident q (Name col))) (Columns tab) ! k)
          = Inr (row ! k)"
    using assms colIndexFrom_nth[OF assms(1), of _ 0] by (simp add: colIndex_def)
qed

lemma selectRows_all:
  "\<forall>row\<in>set rows. evalExprs L [] (currentRow tab row) projection = Inr row \<Longrightarrow>
   selectRows L tab None projection rows = Inr rows"
  by (induction rows) simp_all

lemma select_star_all_rows:
  assumes "tables env (IdentName t) = Some tab"
    and "distinct (map Name (Columns tab))"
    and "\<forall>row\<in>set (Data tab). length row = length (Columns tab)"
  shows "evalSelectStmt L env p [SelectStarExpr q] (IdentExpr t) None =
     Inr \<lparr>TableName = [], Columns = map (\<lambda>c. zeroColumn\<lparr>Name := Name c\<rparr>) (Columns tab), Data = Data tab\<rparr>"
proof -
  let ?proj = "map (\<lambda>col. IdentExpr (Ident q (Name col))) (Columns tab)"
  have x: "expandStar tab [SelectStarExpr q] = ?proj" by (simp add: expandStar_def)
  have a: "\<not> list_ex containsAggFunc ?proj" by (simp add: list_ex_iff)
  have c: "map resultColumn ?proj = map (\<lambda>c. zeroColumn\<lparr>Name := Name c\<rparr>) (Columns tab)"
    by (simp add: resultColumn_def)
  have "\<forall>row\<in>set (Data tab). evalExprs L [] (currentRow tab row) ?proj = Inr row"
    using assms(3) evalExprs_star_row[OF assms(2)] by blast
  from selectRows_all[OF this] assms(1) x a c show ?thesis
    by (simp add: evalSelectStmt_def lookupTable_def)
qed

text \<open>
  C7. Round trip. After a CREATE TABLE that succeeds, and any sequence of INSERT
  statements into that table which supply all columns in table order (with no column list
  or with the full one; an INSERT that fails stores nothing), \<open>SELECT *\<close> from the table
  returns the columns named by the schema, in schema order, and as rows the inserted
  values, each converted to its column's declared data type, in insertion order. Every
  cell of the result is a value of the data type that the CREATE TABLE declares for its
  column, or a null in a column declared nullable.
\<close>

theorem select_star_round_trip:
  assumes "EvalStmt L env0 (CreateTableStmt p tab defs) = Returns (env1, None, None)"
    and "tableColumns defs = Inr columns"
    and "\<forall>stmt\<in>set inserts. insertInOrder (IdentName tab) defs stmt"
    and "IdentName t = IdentName tab"
  shows "\<exists>env2. EvalStmts L env1 inserts = Returns env2
          \<and> EvalStmt L env2 (SelectStmt p' [SelectStarExpr q] (IdentExpr t) None) =
              Returns (env2,
                Some \<lparr>TableName = [],
                      Columns = map (\<lambda>d. zeroColumn\<lparr>Name := IdentName (DefName d)\<rparr>) defs,
                      Data = concat (map (insertedRowOf L columns) inserts)\<rparr>,
                None)
          \<and> (\<forall>row\<in>set (concat (map (insertedRowOf L columns) inserts)).
                length row = length defs
              \<and> (\<forall>k<length defs.
                    case row ! k of
                      None \<Rightarrow> DefNullable (defs ! k)
                    | Some v \<Rightarrow> dataTypeFromToken (DefType (defs ! k)) = Inr (dataTypeOf v)))"
proof -
  from assms(1) have "evalCreateTableStmt env0 tab defs = (env1, Inr ())"
    by (cases "evalCreateTableStmt env0 tab defs") (auto simp: returned_def split: sum.splits)
  from create_table_ok[OF this] assms(2)
  have d: "distinct (map Name columns)"
    and t1: "tables env1 (IdentName tab) = Some \<lparr>TableName = IdentName tab, Columns = columns, Data = []\<rparr>"
    by auto
  let ?tab = "\<lparr>TableName = IdentName tab, Columns = columns, Data = []\<rparr>"
  note n = tableColumns_names[OF assms(2)]
  note ty = tableColumns_types[OF assms(2)]
  from inserts_in_order[OF d n assms(3) t1, of L]
  obtain env2 where e2: "EvalStmts L env1 inserts = Returns env2"
    and t2: "tables env2 (IdentName t) =
       Some (?tab\<lparr>Data := concat (map (insertedRowOf L columns) inserts)\<rparr>)"
    using assms(4) by auto
  let ?tab2 = "?tab\<lparr>Data := concat (map (insertedRowOf L columns) inserts)\<rparr>"
  have d2: "distinct (map Name (Columns ?tab2))" using d by simp
  have l2: "\<forall>row\<in>set (Data ?tab2). length row = length (Columns ?tab2)"
    by (auto dest: insertedRowOf_length)
  have c: "map (\<lambda>c. zeroColumn\<lparr>Name := Name c\<rparr>) columns =
           map (\<lambda>d. zeroColumn\<lparr>Name := IdentName (DefName d)\<rparr>) defs"
    using n by (simp add: list_eq_iff_nth_eq)
  have typed: "\<forall>row\<in>set (concat (map (insertedRowOf L columns) inserts)).
                length row = length defs
              \<and> (\<forall>k<length defs.
                    case row ! k of
                      None \<Rightarrow> DefNullable (defs ! k)
                    | Some v \<Rightarrow> dataTypeFromToken (DefType (defs ! k)) = Inr (dataTypeOf v))"
  proof (intro ballI conjI allI impI)
    fix row assume "row \<in> set (concat (map (insertedRowOf L columns) inserts))"
    then obtain stmt where r: "row \<in> set (insertedRowOf L columns stmt)" by auto
    from insertedRowOf_length[OF r] ty show "length row = length defs" by simp
    fix k assume k: "k < length defs"
    with ty have kc: "k < length columns" by simp
    from insertedRowOf_typed[OF r kc] ty k
    show "case row ! k of
            None \<Rightarrow> DefNullable (defs ! k)
          | Some v \<Rightarrow> dataTypeFromToken (DefType (defs ! k)) = Inr (dataTypeOf v)"
      by (auto split: option.splits)
  qed
  from select_star_all_rows[OF t2 d2 l2, of L p' q] c e2 typed show ?thesis by simp
qed

text \<open>
  Witness for C7: \<open>CREATE TABLE r (n NUMBER NOT NULL, s VARCHAR)\<close> in the empty
  environment, then \<open>INSERT INTO r VALUES (1, 'x')\<close>, which stores the Integer 1 as the
  Number 1.0; \<open>INSERT INTO r VALUES (NULL, 'z')\<close>, which violates the not-null
  constraint and stores nothing; \<open>INSERT INTO r (n, s) VALUES (2.5, 7)\<close>, which stores
  the Integer 7 as the String of its decimal digits; and
  \<open>INSERT INTO r VALUES (TRUE, 'q')\<close>, which fails, there being no conversion of a
  Boolean to a Number.
\<close>

theorem select_star_round_trip_witness:
  "\<forall>L. \<exists>env1 env2.
        EvalStmt L empty_env (CreateTableStmt zeroPos (ident ''r'') roundtrip_definitions) =
          Returns (env1, None, None)
      \<and> EvalStmts L env1 roundtrip_inserts = Returns env2
      \<and> EvalStmt L env2 (SelectStmt zeroPos [SelectStarExpr zeroPos] (IdentExpr (ident ''r'')) None) =
          Returns (env2,
            Some \<lparr>TableName = [],
                  Columns = [zeroColumn\<lparr>Name := ''n''\<rparr>, zeroColumn\<lparr>Name := ''s''\<rparr>],
                  Data = [[Some (NumberValue 0x3FF0000000000000), Some (StringValue ''x'')],
                          [Some (NumberValue 0x4004000000000000), Some (StringValue (FormatInt L 7))]]\<rparr>,
            None)"
proof
  fix L
  let ?columns = "[zeroColumn\<lparr>Name := ''n'', Type := eval_Number, Nullable := False\<rparr>,
                   zeroColumn\<lparr>Name := ''s'', Type := eval_String, Nullable := True\<rparr>]"
  let ?env1 = "\<lparr>tables = [''r'' \<mapsto> \<lparr>TableName = ''r'', Columns = ?columns, Data = []\<rparr>]\<rparr>"
  have c: "EvalStmt L empty_env (CreateTableStmt zeroPos (ident ''r'') roundtrip_definitions) =
             Returns (?env1, None, None)"
    by (simp add: evalCreateTableStmt_def CreateTable_def dataTypeFromToken_def returned_def
          empty_env_def roundtrip_definitions_def lookupTable_def ident_def zeroColumn_def)
  have t: "tableColumns roundtrip_definitions = Inr ?columns"
    by (simp add: roundtrip_definitions_def dataTypeFromToken_def ident_def)
  have i: "\<forall>stmt\<in>set roundtrip_inserts. insertInOrder (IdentName (ident ''r'')) roundtrip_definitions stmt"
    by (simp add: roundtrip_inserts_def roundtrip_definitions_def ident_def)
  have r: "concat (map (insertedRowOf L ?columns) roundtrip_inserts) =
             [[Some (NumberValue 0x3FF0000000000000), Some (StringValue ''x'')],
              [Some (NumberValue 0x4004000000000000), Some (StringValue (FormatInt L 7))]]"
    by (simp add: roundtrip_inserts_def insertedRow_def coercedRow_def storedCell_def
          zeroColumn_def f_of_int64_def f_of_magnitude_def)
  from select_star_round_trip[OF c t i refl, of zeroPos zeroPos] r c
  show "\<exists>env1 env2.
        EvalStmt L empty_env (CreateTableStmt zeroPos (ident ''r'') roundtrip_definitions) =
          Returns (env1, None, None)
      \<and> EvalStmts L env1 roundtrip_inserts = Returns env2
      \<and> EvalStmt L env2 (SelectStmt zeroPos [SelectStarExpr zeroPos] (IdentExpr (ident ''r'')) None) =
          Returns (env2,
            Some \<lparr>TableName = [],
                  Columns = [zeroColumn\<lparr>Name := ''n''\<rparr>, zeroColumn\<lparr>Name := ''s''\<rparr>],
                  Data = [[Some (NumberValue 0x3FF0000000000000), Some (StringValue ''x'')],
                          [Some (NumberValue 0x4004000000000000), Some (StringValue (FormatInt L 7))]]\<rparr>,
            None)"
    by (auto simp: roundtrip_definitions_def ident_def)
qed
subsection \<open>Quoted strings\<close>

lemma quotedStringLoop_eof:
  "\<not> i < length (lex_input lx) \<Longrightarrow>
   quotedStringLoop lx t runes i = (False, lx\<lparr>lex_err := Some (lex_errorf lx ''unterminated string'' [])\<rparr>)"
  by (subst quotedStringLoop.simps) simp

lemma quotedStringLoop_close:
  "i < length (lex_input lx) \<Longrightarrow> lex_input lx ! i = singleQuote \<Longrightarrow>
   \<not> (i + 1 < length (lex_input lx) \<and> lex_input lx ! (i + 1) = singleQuote) \<Longrightarrow>
   quotedStringLoop lx t runes i =
     (True, (tracker_sync t (setLit (string_of_runes runes) (setToken token_StringLiteral lx)))
              \<lparr>lex_pos := i + 1\<rparr>)"
  by (subst quotedStringLoop.simps) auto

lemma quotedStringLoop_doubled:
  "i + 1 < length (lex_input lx) \<Longrightarrow> lex_input lx ! i = singleQuote \<Longrightarrow>
   lex_input lx ! (i + 1) = singleQuote \<Longrightarrow>
   quotedStringLoop lx t runes i = quotedStringLoop lx t (runes @ [singleQuote]) (i + 2)"
  by (subst quotedStringLoop.simps) simp

lemma quotedStringLoop_newline:
  "i < length (lex_input lx) \<Longrightarrow> lex_input lx ! i = newline \<Longrightarrow>
   quotedStringLoop lx t runes i = quotedStringLoop lx (tracker_next t i) (runes @ [newline]) (i + 1)"
  by (subst quotedStringLoop.simps) (simp add: newline_def singleQuote_def)

lemma quotedStringLoop_carriageReturn:
  "i < length (lex_input lx) \<Longrightarrow> lex_input lx ! i = carriageReturn \<Longrightarrow>
   quotedStringLoop lx t runes i =
     quotedStringLoop lx (tracker_next t i) (runes @ [carriageReturn]) (i + 1)"
  by (subst quotedStringLoop.simps) (simp add: newline_def singleQuote_def carriageReturn_def)

lemma quotedStringLoop_other:
  "i < length (lex_input lx) \<Longrightarrow> lex_input lx ! i \<noteq> singleQuote \<Longrightarrow>
   lex_input lx ! i \<noteq> newline \<Longrightarrow> lex_input lx ! i \<noteq> carriageReturn \<Longrightarrow>
   quotedStringLoop lx t runes i = quotedStringLoop lx t (runes @ [lex_input lx ! i]) (i + 1)"
  by (subst quotedStringLoop.simps) simp

lemmas quotedStringLoop_steps = quotedStringLoop_eof quotedStringLoop_close quotedStringLoop_doubled
  quotedStringLoop_newline quotedStringLoop_carriageReturn quotedStringLoop_other


lemma skipSpaceLoop_token:
  "lex_pos lx < length (lex_input lx) \<Longrightarrow> \<not> IsSpace L (lex_input lx ! lex_pos lx) \<Longrightarrow>
   skipSpaceLoop L t lx = (True, tracker_sync t lx)"
  by (subst skipSpaceLoop.simps) simp





subsection \<open>The entry points \<open>Parse\<close> and \<open>EvalStmt\<close>\<close>

subsubsection \<open>The lexer moves on\<close>














subsubsection \<open>The parser moves on\<close>










lemma thenP_lt2:
  assumes "le_prog m lx"
    and "\<And>x lx1. m = Ok x lx1 \<Longrightarrow> lex_err lx1 = None \<Longrightarrow> work lx1 \<le> work lx \<Longrightarrow> lt_prog (k x lx1) lx1"
  shows "lt_prog (thenP m k) lx"
proof (cases m)
  case (Ok x lx1)
  with assms(1) have a: "lex_err lx1 = None" "work lx1 \<le> work lx" by (simp_all add: le_prog_def)
  from assms(2)[OF Ok a] a Ok show ?thesis
    by (cases "k x lx1") (auto simp: thenP_def le_prog_def lt_prog_def)
qed (use assms(1) in \<open>auto simp: thenP_def le_prog_def lt_prog_def\<close>)



























subsubsection \<open>More fuel changes no answer\<close>





























text \<open>
  A lexer error on the first token is not reported. On the text \<open>'abc\<close>, a string
  without its closing quote, \<open>Scan\<close> returns false with the error
  \<open>unterminated string\<close> set, and \<open>Parse\<close>, which tests \<open>!lex.Scan()\<close> before
  \<open>lex.Err()\<close>, returns no statement and no error.
\<close>

lemma first_token_error_is_dropped:
  "Scan L (New [39, 97, 98, 99]) =
     Inr (False, (New [39, 97, 98, 99])\<lparr>lex_tok := zeroToken\<lparr>TokPos := \<lparr>Line = 1, Column = 0\<rparr>\<rparr>,
            lex_err := Some (PosError \<lparr>Line = 1, Column = 0\<rparr> (Sprintf ''unterminated string'' []))\<rparr>)
   \<and> Parse f L (New [39, 97, 98, 99]) = Some (Returns ([], None))"
  by (simp add: Parse_def Scan_def New_def skipSpace_def skipSpaceLoop_token IsSpace_def
        scanRune_def rune_def quotedStringLoop_steps lex_errorf_def
        singleQuote_def newline_def carriageReturn_def consumeQuotedString_def getPos_def
        tracker_sync_def tracker_next_def newLineTracker_def setLit_def setToken_def zeroToken_def
        zeroPos_def)

end
